theory Spec2Isabelle
  imports Main "HOL-Library.Word"
begin

section \<open>Go values shared by the packages\<close>

text \<open>
  Go's \<open>error\<close> interface, restricted to the values the three packages create or
  tell apart:
  \<^item> \<open>ErrNotFound\<close> is the exported not-found sentinel of the storage package;
  \<^item> \<open>CosErrorResponse code\<close> is a \<open>*cos.ErrorResponse\<close> with its \<open>Code\<close> field,
    the only type \<open>StatFile\<close> asserts on;
  \<^item> \<open>NotExistError msg\<close> is an error for which \<open>os.IsNotExist\<close> holds;
  \<^item> \<open>ErrorString msg\<close> is any other error, carrying its text (also the result of
    \<open>fmt.Errorf\<close> with \<open>%s\<close> arguments only);
  \<^item> \<open>ErrorfV prefix e\<close> is \<open>fmt.Errorf(prefix + "%v", e)\<close>.
\<close>

datatype go_error =
    ErrNotFound
  | CosErrorResponse string
  | NotExistError string
  | ErrorString string
  | ErrorfV string go_error

fun os_IsNotExist :: "go_error \<Rightarrow> bool" where
  "os_IsNotExist (NotExistError _) = True"
| "os_IsNotExist _ = False"

text \<open>
  A \<open>time.Time\<close> is an instant counted from January 1, year 1, 00:00:00 UTC, so that
  the zero value \<open>Time{}\<close> is 0.
\<close>

type_synonym go_time = int

definition zero_time :: go_time where
  "zero_time = 0"

text \<open>\<open>strings.Join(elems, sep)\<close>.\<close>

fun strings_Join :: "string list \<Rightarrow> string \<Rightarrow> string" where
  "strings_Join [] sep = []"
| "strings_Join [x] sep = x"
| "strings_Join (x # y # ys) sep = x @ sep @ strings_Join (y # ys) sep"

text \<open>
  \<open>strings.ToUpper\<close> on the bytes of an ASCII string: the letters \<open>a\<close> to \<open>z\<close> are
  mapped to \<open>A\<close> to \<open>Z\<close>, every other byte is kept. (Go maps code points; on text
  outside ASCII the two differ, and the storage classes are ASCII words.)
\<close>

definition upper_char :: "char \<Rightarrow> char" where
  "upper_char c =
     (case map_of (zip ''abcdefghijklmnopqrstuvwxyz'' ''ABCDEFGHIJKLMNOPQRSTUVWXYZ'') c of
        Some u \<Rightarrow> u
      | None \<Rightarrow> c)"

definition strings_ToUpper :: "string \<Rightarrow> string" where
  "strings_ToUpper s = map upper_char s"

text \<open>\<open>strings.HasPrefix\<close> and \<open>strings.TrimPrefix\<close>.\<close>

definition strings_HasPrefix :: "string \<Rightarrow> string \<Rightarrow> bool" where
  "strings_HasPrefix s p = (take (length p) s = p)"

definition strings_TrimPrefix :: "string \<Rightarrow> string \<Rightarrow> string" where
  "strings_TrimPrefix s p = (if strings_HasPrefix s p then drop (length p) s else s)"

section \<open>Package config\<close>

subsection \<open>The archive format table\<close>

definition ArchiveExtensions :: "string \<rightharpoonup> string" where
  "ArchiveExtensions = map_of
     [(''tar'', ''tar''),
      (''lz4'', ''tar.lz4''),
      (''bzip2'', ''tar.bz2''),
      (''gzip'', ''tar.gz''),
      (''sz'', ''tar.sz''),
      (''xz'', ''tar.xz'')]"

text \<open>Indexing a Go map: a missing key gives the zero value, the empty string.\<close>

definition ArchiveExtensions_index :: "string \<Rightarrow> string" where
  "ArchiveExtensions_index k = (case ArchiveExtensions k of Some v \<Rightarrow> v | None \<Rightarrow> [])"

subsection \<open>The configuration tree\<close>

text \<open>
  One record per section of the configuration. Field names are global in a theory, so
  the fields of the backend sections carry the name of their section in front:
  \<open>S3_CompressionFormat\<close> is \<open>S3Config.CompressionFormat\<close>, \<open>COS_Path\<close> is
  \<open>COSConfig.Path\<close>, \<open>CH_Timeout\<close> is \<open>ClickHouseConfig.Timeout\<close>, and so on.
\<close>

record GeneralConfig =
  RemoteStorage :: string
  MaxFileSize :: int
  DisableProgressBar :: bool
  BackupsToKeepLocal :: int
  BackupsToKeepRemote :: int
  LogLevel :: string

record GCSConfig =
  GCS_CredentialsFile :: string
  GCS_CredentialsJSON :: string
  GCS_Bucket :: string
  GCS_Path :: string
  GCS_CompressionLevel :: int
  GCS_CompressionFormat :: string

record AzureBlobConfig =
  AZBLOB_EndpointSuffix :: string
  AZBLOB_AccountName :: string
  AZBLOB_AccountKey :: string
  AZBLOB_SharedAccessSignature :: string
  AZBLOB_Container :: string
  AZBLOB_Path :: string
  AZBLOB_CompressionLevel :: int
  AZBLOB_CompressionFormat :: string
  AZBLOB_SSEKey :: string

record S3Config =
  S3_AccessKey :: string
  S3_SecretKey :: string
  S3_Bucket :: string
  S3_Endpoint :: string
  S3_Region :: string
  S3_ACL :: string
  S3_ForcePathStyle :: bool
  S3_Path :: string
  S3_DisableSSL :: bool
  S3_PartSize :: int
  S3_CompressionLevel :: int
  S3_CompressionFormat :: string
  S3_SSE :: string
  S3_DisableCertVerification :: bool
  S3_StorageClass :: string

record COSConfig =
  COS_RowURL :: string
  COS_Timeout :: string
  COS_SecretID :: string
  COS_SecretKey :: string
  COS_Path :: string
  COS_CompressionFormat :: string
  COS_CompressionLevel :: int

record FTPConfig =
  FTP_Address :: string
  FTP_Timeout :: string
  FTP_Username :: string
  FTP_Password :: string
  FTP_TLS :: bool
  FTP_Path :: string
  FTP_CompressionFormat :: string
  FTP_CompressionLevel :: int

record ClickHouseConfig =
  CH_Username :: string
  CH_Password :: string
  CH_Host :: string
  CH_Port :: nat
  CH_DiskMapping :: "(string \<times> string) list"
  CH_SkipTables :: "string list"
  CH_Timeout :: string
  CH_FreezeByPart :: bool
  CH_Secure :: bool
  CH_SkipVerify :: bool
  CH_SyncReplicatedTables :: bool

record APIConfig =
  API_ListenAddr :: string
  API_EnableMetrics :: bool
  API_EnablePprof :: bool
  API_Username :: string
  API_Password :: string
  API_Secure :: bool
  API_CertificateFile :: string
  API_PrivateKeyFile :: string

record Config =
  General :: GeneralConfig
  ClickHouse :: ClickHouseConfig
  S3 :: S3Config
  GCS :: GCSConfig
  COS :: COSConfig
  API :: APIConfig
  FTP :: FTPConfig
  AzureBlob :: AzureBlobConfig

subsection \<open>Derived accessors\<close>

definition GetArchiveExtension :: "Config \<Rightarrow> string" where
  "GetArchiveExtension cfg =
     (let sel = RemoteStorage (General cfg) in
      if sel = ''s3'' then ArchiveExtensions_index (S3_CompressionFormat (S3 cfg))
      else if sel = ''gcs'' then ArchiveExtensions_index (GCS_CompressionFormat (GCS cfg))
      else if sel = ''cos'' then ArchiveExtensions_index (COS_CompressionFormat (COS cfg))
      else if sel = ''ftp'' then ArchiveExtensions_index (FTP_CompressionFormat (FTP cfg))
      else if sel = ''azblob'' then
        ArchiveExtensions_index (AZBLOB_CompressionFormat (AzureBlob cfg))
      else [])"

definition GetCompressionFormat :: "Config \<Rightarrow> string" where
  "GetCompressionFormat cfg =
     (let sel = RemoteStorage (General cfg) in
      if sel = ''s3'' then S3_CompressionFormat (S3 cfg)
      else if sel = ''gcs'' then GCS_CompressionFormat (GCS cfg)
      else if sel = ''cos'' then COS_CompressionFormat (COS cfg)
      else if sel = ''ftp'' then FTP_CompressionFormat (FTP cfg)
      else if sel = ''azblob'' then AZBLOB_CompressionFormat (AzureBlob cfg)
      else if sel = ''none'' then ''none''
      else ''unknown'')"

subsection \<open>What the package takes from outside\<close>

text \<open>
  The library calls of the package, as parameters: \<open>time.ParseDuration\<close> (only its
  error is looked at), the table \<open>s3.StorageClass_Values()\<close> of the AWS SDK,
  \<open>tls.LoadX509KeyPair\<close> (again only its error), \<open>ioutil.ReadFile\<close>,
  \<open>yaml.Unmarshal\<close> and \<open>envconfig.Process\<close>. The last two write through a pointer:
  they get the configuration and give back the one they leave behind.
\<close>

record config_env =
  time_ParseDuration :: "string \<Rightarrow> go_error option"
  s3_StorageClass_Values :: "string list"
  tls_LoadX509KeyPair :: "string \<Rightarrow> string \<Rightarrow> go_error option"
  ioutil_ReadFile :: "string \<Rightarrow> go_error + string"
  yaml_Unmarshal :: "string \<Rightarrow> Config \<Rightarrow> go_error option \<times> Config"
  envconfig_Process :: "Config \<Rightarrow> go_error option \<times> Config"

subsection \<open>Validation\<close>

text \<open>The two messages \<open>ValidateConfig\<close> builds with \<open>fmt.Errorf\<close>.\<close>

definition unsupported_format_error :: "string \<Rightarrow> go_error" where
  "unsupported_format_error f =
     ErrorString ([CHR 0x27] @ f @ ''' is unsupported compression format'')"

definition bad_storage_class_error :: "string \<Rightarrow> string list \<Rightarrow> go_error" where
  "bad_storage_class_error c vs =
     ErrorString ([CHR 0x27] @ c @ ''' is bad S3_STORAGE_CLASS, select one of: ''
                  @ strings_Join vs '', '')"

text \<open>
  The loop over the storage classes: \<open>storageClassOk\<close> becomes true at the first value
  equal to the upper-cased setting, and the loop stops there.
\<close>

fun storageClassOk :: "string \<Rightarrow> string list \<Rightarrow> bool" where
  "storageClassOk c [] = False"
| "storageClassOk c (storageClass # rest) =
     (if strings_ToUpper c = storageClass then True else storageClassOk c rest)"

definition ValidateConfig :: "config_env \<Rightarrow> Config \<Rightarrow> go_error option" where
  "ValidateConfig env cfg =
     (if GetCompressionFormat cfg \<noteq> ''none''
         \<and> ArchiveExtensions (GetCompressionFormat cfg) = None
      then Some (unsupported_format_error (GetCompressionFormat cfg))
      else case time_ParseDuration env (CH_Timeout (ClickHouse cfg)) of
        Some err \<Rightarrow> Some err
      | None \<Rightarrow>
      (case time_ParseDuration env (COS_Timeout (COS cfg)) of
        Some err \<Rightarrow> Some err
      | None \<Rightarrow>
      (case time_ParseDuration env (FTP_Timeout (FTP cfg)) of
        Some err \<Rightarrow> Some err
      | None \<Rightarrow>
      if \<not> storageClassOk (S3_StorageClass (S3 cfg)) (s3_StorageClass_Values env)
      then Some (bad_storage_class_error (S3_StorageClass (S3 cfg))
                   (s3_StorageClass_Values env))
      else if API_Secure (API cfg)
      then (case tls_LoadX509KeyPair env (API_CertificateFile (API cfg))
                   (API_PrivateKeyFile (API cfg)) of
              Some err \<Rightarrow> Some err
            | None \<Rightarrow> None)
      else None)))"

subsection \<open>Defaults and loading\<close>

text \<open>
  \<open>DefaultConfig\<close>: the fields the composite literal leaves out have their zero value.
  \<open>s3.StorageClassStandard\<close> is the constant \<open>"STANDARD"\<close> of the AWS SDK.
\<close>

definition s3_StorageClassStandard :: string where
  "s3_StorageClassStandard = ''STANDARD''"

definition DefaultConfig :: Config where
  "DefaultConfig = \<lparr>
     General = \<lparr>
       RemoteStorage = ''s3'',
       MaxFileSize = 1024 * 1024 * 1024 * 1024,
       DisableProgressBar = False,
       BackupsToKeepLocal = 0,
       BackupsToKeepRemote = 0,
       LogLevel = ''info'' \<rparr>,
     ClickHouse = \<lparr>
       CH_Username = ''default'',
       CH_Password = [],
       CH_Host = ''localhost'',
       CH_Port = 9000,
       CH_DiskMapping = [],
       CH_SkipTables = [''system.*''],
       CH_Timeout = ''5m'',
       CH_FreezeByPart = False,
       CH_Secure = False,
       CH_SkipVerify = False,
       CH_SyncReplicatedTables = True \<rparr>,
     S3 = \<lparr>
       S3_AccessKey = [],
       S3_SecretKey = [],
       S3_Bucket = [],
       S3_Endpoint = [],
       S3_Region = ''us-east-1'',
       S3_ACL = ''private'',
       S3_ForcePathStyle = False,
       S3_Path = [],
       S3_DisableSSL = False,
       S3_PartSize = 512 * 1024 * 1024,
       S3_CompressionLevel = 1,
       S3_CompressionFormat = ''tar'',
       S3_SSE = [],
       S3_DisableCertVerification = False,
       S3_StorageClass = s3_StorageClassStandard \<rparr>,
     GCS = \<lparr>
       GCS_CredentialsFile = [],
       GCS_CredentialsJSON = [],
       GCS_Bucket = [],
       GCS_Path = [],
       GCS_CompressionLevel = 1,
       GCS_CompressionFormat = ''tar'' \<rparr>,
     COS = \<lparr>
       COS_RowURL = [],
       COS_Timeout = ''2m'',
       COS_SecretID = [],
       COS_SecretKey = [],
       COS_Path = [],
       COS_CompressionFormat = ''tar'',
       COS_CompressionLevel = 1 \<rparr>,
     API = \<lparr>
       API_ListenAddr = ''localhost:7171'',
       API_EnableMetrics = True,
       API_EnablePprof = False,
       API_Username = [],
       API_Password = [],
       API_Secure = False,
       API_CertificateFile = [],
       API_PrivateKeyFile = [] \<rparr>,
     FTP = \<lparr>
       FTP_Address = [],
       FTP_Timeout = ''2m'',
       FTP_Username = [],
       FTP_Password = [],
       FTP_TLS = False,
       FTP_Path = [],
       FTP_CompressionFormat = ''tar'',
       FTP_CompressionLevel = 1 \<rparr>,
     AzureBlob = \<lparr>
       AZBLOB_EndpointSuffix = ''core.windows.net'',
       AZBLOB_AccountName = [],
       AZBLOB_AccountKey = [],
       AZBLOB_SharedAccessSignature = [],
       AZBLOB_Container = [],
       AZBLOB_Path = [],
       AZBLOB_CompressionLevel = 1,
       AZBLOB_CompressionFormat = ''tar'',
       AZBLOB_SSEKey = [] \<rparr> \<rparr>"

text \<open>
  \<open>LoadConfig\<close> returns a pointer and an error: the pointer is \<open>None\<close> for \<open>nil\<close>, the
  error is \<open>None\<close> for \<open>nil\<close>. A file that does not exist is no failure: the bytes read
  are then \<open>nil\<close> and are parsed as they are.
\<close>

definition LoadConfig :: "config_env \<Rightarrow> string \<Rightarrow> Config option \<times> go_error option" where
  "LoadConfig env configLocation =
     (let cfg = DefaultConfig;
          rd = ioutil_ReadFile env configLocation
      in case (case rd of Inl err \<Rightarrow> if \<not> os_IsNotExist err then Some err else None
                        | Inr _ \<Rightarrow> None) of
        Some err \<Rightarrow> (None, Some (ErrorfV ''can't open config file: '' err))
      | None \<Rightarrow>
        (let configYaml = (case rd of Inl _ \<Rightarrow> [] | Inr bytes \<Rightarrow> bytes) in
         case yaml_Unmarshal env configYaml cfg of
           (Some err, _) \<Rightarrow> (None, Some (ErrorfV ''can't parse config file: '' err))
         | (None, cfg1) \<Rightarrow>
           (case envconfig_Process env cfg1 of
              (Some err, _) \<Rightarrow> (None, Some err)
            | (None, cfg2) \<Rightarrow> (Some cfg2, ValidateConfig env cfg2))))"

section \<open>Package metadata\<close>

text \<open>
  \<open>TableMetadata.Load\<close> reads a file and decodes it into the receiver. The two library
  calls are parameters: \<open>ioutil.ReadFile\<close>, and \<open>json.Unmarshal\<close>, which writes
  through the receiver and so gives back the metadata it leaves behind. The type of the
  metadata is declared elsewhere in the package and stays a type variable.
\<close>

record 'tm metadata_env =
  md_ReadFile :: "string \<Rightarrow> go_error + string"
  json_Unmarshal :: "string \<Rightarrow> 'tm \<Rightarrow> go_error option \<times> 'tm"

text \<open>
  The result is the pair the method returns, a \<open>uint64\<close> and an error, together with
  the receiver after the call.
\<close>

definition Load ::
  "'tm metadata_env \<Rightarrow> 'tm \<Rightarrow> string \<Rightarrow> (64 word \<times> go_error option) \<times> 'tm" where
  "Load env tm location =
     (case md_ReadFile env location of
        Inl err \<Rightarrow> ((0, Some err), tm)
      | Inr data \<Rightarrow>
        (case json_Unmarshal env data tm of
           (Some err, tm') \<Rightarrow> ((0, Some err), tm')
         | (None, tm') \<Rightarrow> ((of_nat (length data), None), tm')))"

section \<open>Package new_storage: the COS adapter\<close>

subsection \<open>Hierarchical paths\<close>

text \<open>
  \<open>path.Join\<close> and \<open>path.Clean\<close> of Go's standard library, on the elements of a
  path: \<open>path_elems\<close> cuts a path at every slash; \<open>clean_elems\<close> drops empty and
  \<open>.\<close> elements and lets a \<open>..\<close> element remove the element before it (at the root
  it is dropped, at the start of a relative path it is kept); \<open>path_Clean\<close> puts the
  remaining elements together again, and \<open>path_Join\<close> skips leading empty arguments,
  joins the others with slashes and cleans the result.
\<close>

fun path_elems :: "string \<Rightarrow> string \<Rightarrow> string list" where
  "path_elems cur [] = [rev cur]"
| "path_elems cur (c # cs) =
     (if c = CHR ''/'' then rev cur # path_elems [] cs else path_elems (c # cur) cs)"

fun clean_elems :: "bool \<Rightarrow> string list \<Rightarrow> string list \<Rightarrow> string list" where
  "clean_elems rooted out [] = rev out"
| "clean_elems rooted out (e # es) =
     (if e = [] \<or> e = ''.'' then clean_elems rooted out es
      else if e = ''..'' then
        (case out of
           el # below \<Rightarrow>
             if el \<noteq> ''..'' then clean_elems rooted below es
             else if \<not> rooted then clean_elems rooted (''..'' # out) es
             else clean_elems rooted out es
         | [] \<Rightarrow>
             if \<not> rooted then clean_elems rooted [''..''] es
             else clean_elems rooted [] es)
      else clean_elems rooted (e # out) es)"

definition path_Clean :: "string \<Rightarrow> string" where
  "path_Clean p =
     (case p of
        [] \<Rightarrow> ''.''
      | c # _ \<Rightarrow>
        (let rooted = (c = CHR ''/'');
             body = strings_Join (clean_elems rooted [] (path_elems [] p)) ''/'';
             out = (if rooted then ''/'' @ body else body)
         in if out = [] then ''.'' else out))"

definition path_Join :: "string list \<Rightarrow> string" where
  "path_Join elem =
     (case dropWhile (\<lambda>e. e = []) elem of
        [] \<Rightarrow> []
      | es \<Rightarrow> path_Clean (strings_Join es ''/''))"

subsection \<open>Timestamps\<close>

text \<open>
  \<open>time.Parse(layout, text)\<close> is a parameter. It gives a time or an error; with an
  error Go returns the zero time beside it.
\<close>

type_synonym time_parser = "string \<Rightarrow> string \<Rightarrow> go_error + go_time"

definition time_RFC850 :: string where
  "time_RFC850 = ''Monday, 02-Jan-06 15:04:05 MST''"

definition time_ANSIC :: string where
  "time_ANSIC = ''Mon Jan _2 15:04:05 2006''"

definition time_RFC3339 :: string where
  "time_RFC3339 = ''2006-01-02T15:04:05Z07:00''"

definition timeFormats :: "string list" where
  "timeFormats = [''Mon, 02 Jan 2006 15:04:05 GMT'', time_RFC850, time_ANSIC, time_RFC3339]"

text \<open>
  The loop of \<open>parseTime\<close> over the layouts. The pair is the named results \<open>(t, err)\<close>:
  every round assigns both, and the first round without an error returns.
\<close>

fun parseTime_loop ::
  "time_parser \<Rightarrow> string \<Rightarrow> string list \<Rightarrow> go_time \<times> go_error option
     \<Rightarrow> go_time \<times> go_error option" where
  "parseTime_loop time_Parse text [] r = r"
| "parseTime_loop time_Parse text (layout # layouts) r =
     (case time_Parse layout text of
        Inr t \<Rightarrow> (t, None)
      | Inl err \<Rightarrow> parseTime_loop time_Parse text layouts (zero_time, Some err))"

definition parseTime :: "time_parser \<Rightarrow> string \<Rightarrow> go_time \<times> go_error option" where
  "parseTime time_Parse text = parseTime_loop time_Parse text timeFormats (zero_time, None)"

subsection \<open>Remote files\<close>

record cosFile =
  cosFile_size :: int
  cosFile_lastModified :: go_time
  cosFile_name :: string

definition Size :: "cosFile \<Rightarrow> int" where
  "Size f = cosFile_size f"

definition Name :: "cosFile \<Rightarrow> string" where
  "Name f = cosFile_name f"

definition LastModified :: "cosFile \<Rightarrow> go_time" where
  "LastModified f = cosFile_lastModified f"

subsection \<open>The provider client\<close>

text \<open>
  What the adapter reads of the answer to \<open>Object.Get\<close>: the \<open>Date\<close> header, the
  content length, the path of the request's URL, and the body, a stream that is only
  read by whoever gets hold of it.
\<close>

record cos_response =
  Header_Date :: string
  ContentLength :: int
  Request_URL_Path :: string
  Body :: string

text \<open>The answer to \<open>Bucket.Get\<close>: common prefixes and listed objects.\<close>

record cos_Object =
  Object_Key :: string
  Object_LastModified :: string
  Object_Size :: int

record BucketGetResult =
  CommonPrefixes :: "string list"
  Contents :: "cos_Object list"

text \<open>
  The client of the provider's SDK is a parameter: for each call of the adapter, the
  answer of the remote side. \<open>Bucket_Get\<close> takes the delimiter and the prefix of its
  options.
\<close>

record cos_client =
  Object_Get :: "string \<Rightarrow> go_error + cos_response"
  Object_Delete :: "string \<Rightarrow> go_error option"
  Bucket_Get :: "string \<Rightarrow> string \<Rightarrow> go_error + BucketGetResult"

text \<open>
  The requests sent to the provider are an effect of the adapter: every call of the
  client appends the request to a log that is passed along.
\<close>

datatype request =
    ObjectGet string
  | ObjectDelete string
  | BucketGet string string

definition client_Object_Get ::
  "cos_client \<Rightarrow> string \<Rightarrow> request list \<Rightarrow> (go_error + cos_response) \<times> request list" where
  "client_Object_Get cl name log = (Object_Get cl name, log @ [ObjectGet name])"

definition client_Object_Delete ::
  "cos_client \<Rightarrow> string \<Rightarrow> request list \<Rightarrow> go_error option \<times> request list" where
  "client_Object_Delete cl name log = (Object_Delete cl name, log @ [ObjectDelete name])"

definition client_Bucket_Get ::
  "cos_client \<Rightarrow> string \<Rightarrow> string \<Rightarrow> request list
     \<Rightarrow> (go_error + BucketGetResult) \<times> request list" where
  "client_Bucket_Get cl delimiter prefix log =
     (Bucket_Get cl delimiter prefix, log @ [BucketGet delimiter prefix])"

subsection \<open>The adapter\<close>

record COS_storage =
  client :: cos_client
  COS_Config :: COSConfig
  Debug :: bool

definition Kind :: "COS_storage \<Rightarrow> string" where
  "Kind c = ''COS''"

definition StatFile ::
  "time_parser \<Rightarrow> COS_storage \<Rightarrow> string \<Rightarrow> request list
     \<Rightarrow> (go_error + cosFile) \<times> request list" where
  "StatFile time_Parse c key log =
     (case client_Object_Get (client c) (path_Join [COS_Path (COS_Config c), key]) log of
        (Inl err, log') \<Rightarrow>
          (case err of
             CosErrorResponse code \<Rightarrow>
               if code = ''NoSuchKey'' then (Inl ErrNotFound, log') else (Inl err, log')
           | _ \<Rightarrow> (Inl err, log'))
      | (Inr resp, log') \<Rightarrow>
          (case parseTime time_Parse (Header_Date resp) of
             (modifiedTime, _) \<Rightarrow>
               (Inr \<lparr> cosFile_size = ContentLength resp,
                      cosFile_lastModified = modifiedTime,
                      cosFile_name = Request_URL_Path resp \<rparr>, log')))"

definition DeleteFile ::
  "COS_storage \<Rightarrow> string \<Rightarrow> request list \<Rightarrow> go_error option \<times> request list" where
  "DeleteFile c key log =
     client_Object_Delete (client c) (path_Join [COS_Path (COS_Config c), key]) log"

text \<open>
  \<open>Walk\<close> calls the visitor \<open>process\<close> and drops what it returns. The visitor works on
  a state of its own, which \<open>Walk\<close> passes from one call to the next.
\<close>

fun walk_prefixes ::
  "(cosFile \<Rightarrow> 's \<Rightarrow> go_error option \<times> 's) \<Rightarrow> string \<Rightarrow> string list \<Rightarrow> 's \<Rightarrow> 's" where
  "walk_prefixes process prefix [] s = s"
| "walk_prefixes process prefix (dir # dirs) s =
     walk_prefixes process prefix dirs
       (snd (process \<lparr> cosFile_size = 0,
                       cosFile_lastModified = zero_time,
                       cosFile_name = strings_TrimPrefix dir prefix \<rparr> s))"

fun walk_contents ::
  "time_parser \<Rightarrow> (cosFile \<Rightarrow> 's \<Rightarrow> go_error option \<times> 's) \<Rightarrow> string
     \<Rightarrow> cos_Object list \<Rightarrow> 's \<Rightarrow> 's" where
  "walk_contents time_Parse process prefix [] s = s"
| "walk_contents time_Parse process prefix (v # vs) s =
     (case parseTime time_Parse (Object_LastModified v) of
        (modifiedTime, _) \<Rightarrow>
          walk_contents time_Parse process prefix vs
            (snd (process \<lparr> cosFile_size = Object_Size v,
                            cosFile_lastModified = modifiedTime,
                            cosFile_name = strings_TrimPrefix (Object_Key v) prefix \<rparr> s)))"

definition Walk ::
  "time_parser \<Rightarrow> COS_storage \<Rightarrow> string \<Rightarrow> bool
     \<Rightarrow> (cosFile \<Rightarrow> 's \<Rightarrow> go_error option \<times> 's) \<Rightarrow> 's \<Rightarrow> request list
     \<Rightarrow> go_error option \<times> 's \<times> request list" where
  "Walk time_Parse c cosPath recursuve process s log =
     (let prefix = path_Join [COS_Path (COS_Config c), cosPath];
          delimiter = (if \<not> recursuve then ''/'' else [])
      in case client_Bucket_Get (client c) delimiter prefix log of
           (Inl err, log') \<Rightarrow> (Some err, s, log')
         | (Inr res, log') \<Rightarrow>
             (None,
              walk_contents time_Parse process prefix (Contents res)
                (walk_prefixes process prefix (CommonPrefixes res) s),
              log'))"

definition GetFileReader ::
  "COS_storage \<Rightarrow> string \<Rightarrow> request list \<Rightarrow> (go_error + string) \<times> request list" where
  "GetFileReader c key log =
     (case client_Object_Get (client c) (path_Join [COS_Path (COS_Config c), key]) log of
        (Inl err, log') \<Rightarrow> (Inl err, log')
      | (Inr resp, log') \<Rightarrow> (Inr (Body resp), log'))"

subsection \<open>A provider over a namespace of keys\<close>

text \<open>
  Modelled from the spec: the provider behind the client, a flat namespace of keys. It
  is not part of the repository; the spec describes it in its sections 4.1 and 4.2. The
  namespace is the list of its objects in the order the provider lists them, by key.
  \<^item> \<open>Object.Get\<close> on a key that is absent answers with the error code \<open>NoSuchKey\<close>;
    on a key that is there, with the object, the date of the answer in the \<open>Date\<close>
    header and the key after a slash as the path of the URL.
  \<^item> \<open>Object.Delete\<close> answers without an error, also for a key that is absent.
  \<^item> \<open>Bucket.Get\<close> lists the keys that start with the prefix. With an empty delimiter
    every such key is listed as an object. With a delimiter, a key in which the
    delimiter occurs after the prefix is not listed: the part of the key up to and with
    the first such occurrence is surfaced, once, as a common prefix. One answer holds
    at most 1000 entries.
\<close>

record remote_object =
  object_body :: string
  object_LastModified :: string

datatype listing_entry = PrefixEntry string | ObjectEntry cos_Object

fun upto_delimiter :: "string \<Rightarrow> string \<Rightarrow> string option" where
  "upto_delimiter d [] = None"
| "upto_delimiter d (c # cs) =
     (if strings_HasPrefix (c # cs) d then Some d
      else map_option ((#) c) (upto_delimiter d cs))"

fun list_entries ::
  "string \<Rightarrow> string \<Rightarrow> (string \<times> remote_object) list \<Rightarrow> listing_entry list
     \<Rightarrow> listing_entry list" where
  "list_entries d p [] acc = acc"
| "list_entries d p ((key, ob) # rest) acc =
     (if \<not> strings_HasPrefix key p then list_entries d p rest acc
      else case (if d = [] then None else upto_delimiter d (drop (length p) key)) of
        Some part \<Rightarrow>
          list_entries d p rest
            (if PrefixEntry (p @ part) \<in> set acc then acc
             else acc @ [PrefixEntry (p @ part)])
      | None \<Rightarrow>
          list_entries d p rest
            (acc @ [ObjectEntry \<lparr> Object_Key = key,
                                  Object_LastModified = object_LastModified ob,
                                  Object_Size = int (length (object_body ob)) \<rparr>]))"

fun entry_prefixes :: "listing_entry list \<Rightarrow> string list" where
  "entry_prefixes [] = []"
| "entry_prefixes (PrefixEntry p # es) = p # entry_prefixes es"
| "entry_prefixes (ObjectEntry v # es) = entry_prefixes es"

fun entry_objects :: "listing_entry list \<Rightarrow> cos_Object list" where
  "entry_objects [] = []"
| "entry_objects (PrefixEntry p # es) = entry_objects es"
| "entry_objects (ObjectEntry v # es) = v # entry_objects es"

definition list_objects ::
  "string \<Rightarrow> string \<Rightarrow> (string \<times> remote_object) list \<Rightarrow> BucketGetResult" where
  "list_objects d p objects =
     (let page = take 1000 (list_entries d p objects [])
      in \<lparr> CommonPrefixes = entry_prefixes page, Contents = entry_objects page \<rparr>)"

definition cos_service :: "string \<Rightarrow> (string \<times> remote_object) list \<Rightarrow> cos_client" where
  "cos_service date objects = \<lparr>
     Object_Get = (\<lambda>name.
       case map_of objects name of
         None \<Rightarrow> Inl (CosErrorResponse ''NoSuchKey'')
       | Some ob \<Rightarrow>
           Inr \<lparr> Header_Date = date,
                 ContentLength = int (length (object_body ob)),
                 Request_URL_Path = ''/'' @ name,
                 Body = object_body ob \<rparr>),
     Object_Delete = (\<lambda>name. None),
     Bucket_Get = (\<lambda>delimiter prefix. Inr (list_objects delimiter prefix objects)) \<rparr>"

text \<open>The visitor that records the files it is called on, in the order of the calls.\<close>

definition record_visit :: "cosFile \<Rightarrow> cosFile list \<Rightarrow> go_error option \<times> cosFile list" where
  "record_visit f seen = (None, seen @ [f])"

section \<open>Concrete inputs\<close>

text \<open>
  An adapter with the default COS section (an empty path prefix) over a provider that
  holds the two keys \<open>a/b/file1\<close> and \<open>a/c/file2\<close>.
\<close>

definition two_keys :: "(string \<times> remote_object) list" where
  "two_keys =
     [(''a/b/file1'', \<lparr> object_body = ''one'', object_LastModified = ''2021-03-04T05:06:07Z'' \<rparr>),
      (''a/c/file2'', \<lparr> object_body = ''second'', object_LastModified = ''yesterday'' \<rparr>)]"

definition two_keys_cos :: COS_storage where
  "two_keys_cos = \<lparr>
     client = cos_service ''Thu, 04 Mar 2021 05:06:07 GMT'' two_keys,
     COS_Config = COS DefaultConfig,
     Debug = False \<rparr>"

text \<open>A parser of times that knows one date in two layouts and fails on everything else.\<close>

definition sample_time_Parse :: time_parser where
  "sample_time_Parse layout text =
     (if layout = time_RFC3339 \<and> text = ''2021-03-04T05:06:07Z'' then Inr 63750431167
      else if layout = ''Mon, 02 Jan 2006 15:04:05 GMT''
              \<and> text = ''Thu, 04 Mar 2021 05:06:07 GMT'' then Inr 63750431167
      else Inl (ErrorString ''parsing time: cannot parse''))"

text \<open>
  Library calls for the configuration: durations of the form used by the defaults
  parse, the storage classes are those of the AWS SDK, no key pair loads, no
  configuration file exists, and the environment sets nothing.
\<close>

definition sample_env :: config_env where
  "sample_env = \<lparr>
     time_ParseDuration = (\<lambda>s.
       if s = ''5m'' \<or> s = ''2m'' then None
       else Some (ErrorString ''time: invalid duration'')),
     s3_StorageClass_Values =
       [''STANDARD'', ''REDUCED_REDUNDANCY'', ''STANDARD_IA'', ''ONEZONE_IA'',
        ''INTELLIGENT_TIERING'', ''GLACIER'', ''DEEP_ARCHIVE'', ''OUTPOSTS''],
     tls_LoadX509KeyPair = (\<lambda>certFile keyFile.
       Some (ErrorString ''tls: failed to find any PEM data in certificate input'')),
     ioutil_ReadFile = (\<lambda>location. Inl (NotExistError ''no such file or directory'')),
     yaml_Unmarshal = (\<lambda>bytes cfg. (None, cfg)),
     envconfig_Process = (\<lambda>cfg. (None, cfg)) \<rparr>"

text \<open>The same, with an environment that sets \<open>S3_STORAGE_CLASS\<close> to \<open>bogus\<close>.\<close>

definition bogus_class_env :: config_env where
  "bogus_class_env = sample_env \<lparr>
     envconfig_Process := (\<lambda>cfg. (None, cfg \<lparr> S3 := (S3 cfg) \<lparr> S3_StorageClass := ''bogus'' \<rparr> \<rparr>)) \<rparr>"

text \<open>The same, with a configuration file that cannot be read.\<close>

definition unreadable_env :: config_env where
  "unreadable_env = sample_env \<lparr>
     ioutil_ReadFile := (\<lambda>location. Inl (ErrorString ''permission denied'')) \<rparr>"

text \<open>The default configuration with another selector, or another format or class for S3.\<close>

definition with_selector :: "string \<Rightarrow> Config \<Rightarrow> Config" where
  "with_selector sel cfg = cfg \<lparr> General := (General cfg) \<lparr> RemoteStorage := sel \<rparr> \<rparr>"

definition with_S3_format :: "string \<Rightarrow> Config \<Rightarrow> Config" where
  "with_S3_format f cfg = cfg \<lparr> S3 := (S3 cfg) \<lparr> S3_CompressionFormat := f \<rparr> \<rparr>"

definition with_S3_class :: "string \<Rightarrow> Config \<Rightarrow> Config" where
  "with_S3_class c cfg = cfg \<lparr> S3 := (S3 cfg) \<lparr> S3_StorageClass := c \<rparr> \<rparr>"

text \<open>A file system with one metadata file, and a decoder that accepts only its text.\<close>

definition sample_metadata_env :: "string metadata_env" where
  "sample_metadata_env = \<lparr>
     md_ReadFile = (\<lambda>location.
       if location = ''/backup/metadata/t.json'' then Inr ''{}''
       else if location = ''/backup/metadata/broken.json'' then Inr ''{''
       else Inl (NotExistError ''no such file or directory'')),
     json_Unmarshal = (\<lambda>data tm.
       if data = ''{}'' then (None, tm)
       else (Some (ErrorString ''unexpected end of JSON input''), tm)) \<rparr>"

section \<open>Notions used in the statements\<close>

text \<open>The four checks of \<open>ValidateConfig\<close>, each as a property of the configuration.\<close>

definition format_check_passes :: "Config \<Rightarrow> bool" where
  "format_check_passes cfg \<longleftrightarrow>
     GetCompressionFormat cfg = ''none'' \<or> GetCompressionFormat cfg \<in> dom ArchiveExtensions"

definition timeouts_parse :: "config_env \<Rightarrow> Config \<Rightarrow> bool" where
  "timeouts_parse env cfg \<longleftrightarrow>
     time_ParseDuration env (CH_Timeout (ClickHouse cfg)) = None
     \<and> time_ParseDuration env (COS_Timeout (COS cfg)) = None
     \<and> time_ParseDuration env (FTP_Timeout (FTP cfg)) = None"

definition storage_class_listed :: "config_env \<Rightarrow> Config \<Rightarrow> bool" where
  "storage_class_listed env cfg \<longleftrightarrow>
     strings_ToUpper (S3_StorageClass (S3 cfg)) \<in> set (s3_StorageClass_Values env)"

definition key_pair_loads :: "config_env \<Rightarrow> Config \<Rightarrow> bool" where
  "key_pair_loads env cfg \<longleftrightarrow>
     \<not> API_Secure (API cfg)
     \<or> tls_LoadX509KeyPair env (API_CertificateFile (API cfg))
          (API_PrivateKeyFile (API cfg)) = None"

text \<open>
  The stages of loading before validation, in the words of the spec: the defaults,
  overlaid by the file (a file that does not exist overlays nothing of its own: its
  bytes are empty), then overlaid by the environment. Each stage gives a configuration
  or the error that stops it.
\<close>

definition file_overlay :: "config_env \<Rightarrow> string \<Rightarrow> go_error + Config" where
  "file_overlay env configLocation =
     (case ioutil_ReadFile env configLocation of
        Inl err \<Rightarrow>
          if os_IsNotExist err then
            (case yaml_Unmarshal env [] DefaultConfig of
               (Some perr, _) \<Rightarrow> Inl (ErrorfV ''can't parse config file: '' perr)
             | (None, cfg) \<Rightarrow> Inr cfg)
          else Inl (ErrorfV ''can't open config file: '' err)
      | Inr bytes \<Rightarrow>
          (case yaml_Unmarshal env bytes DefaultConfig of
             (Some perr, _) \<Rightarrow> Inl (ErrorfV ''can't parse config file: '' perr)
           | (None, cfg) \<Rightarrow> Inr cfg))"

definition environment_overlay :: "config_env \<Rightarrow> string \<Rightarrow> go_error + Config" where
  "environment_overlay env configLocation =
     (case file_overlay env configLocation of
        Inl err \<Rightarrow> Inl err
      | Inr cfg \<Rightarrow>
          (case envconfig_Process env cfg of
             (Some err, _) \<Rightarrow> Inl err
           | (None, cfg') \<Rightarrow> Inr cfg'))"

text \<open>The files a recording visitor has seen after a walk.\<close>

definition visited ::
  "time_parser \<Rightarrow> COS_storage \<Rightarrow> string \<Rightarrow> bool \<Rightarrow> cosFile list" where
  "visited time_Parse c cosPath recursuve =
     fst (snd (Walk time_Parse c cosPath recursuve record_visit [] []))"

text \<open>The same client, answering \<open>Object.Get\<close> with the same headers and an empty body.\<close>

definition without_body :: "cos_client \<Rightarrow> cos_client" where
  "without_body cl =
     cl \<lparr> Object_Get := (\<lambda>name. map_sum id (\<lambda>resp. resp \<lparr> Body := [] \<rparr>) (Object_Get cl name)) \<rparr>"

text \<open>The adapter over the two keys, with a provider whose \<open>Date\<close> header is no date.\<close>

definition undated_cos :: COS_storage where
  "undated_cos = two_keys_cos \<lparr> client := cos_service ''soon'' two_keys \<rparr>"

section \<open>Validation and the derived accessors\<close>

lemma storageClassOk_iff: "storageClassOk c vs \<longleftrightarrow> strings_ToUpper c \<in> set vs"
  by (induction vs) auto

lemma ArchiveExtensions_dom:
  "dom ArchiveExtensions = {''tar'', ''lz4'', ''bzip2'', ''gzip'', ''sz'', ''xz''}"
  unfolding ArchiveExtensions_def by (simp add: dom_map_of_conv_image_fst)

lemma ArchiveExtensions_values:
  "ArchiveExtensions k = Some v \<Longrightarrow> v \<noteq> [] \<and> strings_HasPrefix v ''tar''"
  unfolding ArchiveExtensions_def strings_HasPrefix_def
  by (auto split: if_splits)

lemma GetCompressionFormat_with_selector_none:
  "GetCompressionFormat (with_selector ''none'' cfg) = ''none''"
  by (simp add: GetCompressionFormat_def with_selector_def)

lemma with_selector_sections:
  "ClickHouse (with_selector sel cfg) = ClickHouse cfg"
  "S3 (with_selector sel cfg) = S3 cfg"
  "GCS (with_selector sel cfg) = GCS cfg"
  "COS (with_selector sel cfg) = COS cfg"
  "API (with_selector sel cfg) = API cfg"
  "FTP (with_selector sel cfg) = FTP cfg"
  "AzureBlob (with_selector sel cfg) = AzureBlob cfg"
  "RemoteStorage (General (with_selector sel cfg)) = sel"
  by (simp_all add: with_selector_def)

lemma ValidateConfig_format_passes:
  "format_check_passes cfg \<Longrightarrow> ValidateConfig env cfg = ValidateConfig env (with_selector ''none'' cfg)"
  unfolding format_check_passes_def ValidateConfig_def GetCompressionFormat_with_selector_none
    with_selector_sections
  by (auto simp: dom_def)

lemma ValidateConfig_None_iff:
  "ValidateConfig env cfg = None \<longleftrightarrow>
     format_check_passes cfg \<and> timeouts_parse env cfg \<and> storage_class_listed env cfg
     \<and> key_pair_loads env cfg"
  unfolding ValidateConfig_def format_check_passes_def timeouts_parse_def
    storage_class_listed_def key_pair_loads_def storageClassOk_iff
  by (auto simp: dom_def split: option.splits)

text \<open>
  C5: when the effective compression format of the active backend is neither \<open>none\<close>
  nor a key of the archive format table, \<open>ValidateConfig\<close> returns the error whose
  message names that format. When the format is \<open>none\<close> or a key of the table, the
  check passes: the result is that of the same configuration with the selector
  \<open>none\<close>, for which the check does not apply, and it is success when the other
  checks pass.
\<close>

theorem ValidateConfig_compression_format:
  "(GetCompressionFormat cfg \<noteq> ''none'' \<and> GetCompressionFormat cfg \<notin> dom ArchiveExtensions \<longrightarrow>
      ValidateConfig env cfg =
        Some (ErrorString ([CHR 0x27] @ GetCompressionFormat cfg
                           @ ''' is unsupported compression format'')))
   \<and> (GetCompressionFormat cfg = ''none'' \<or> GetCompressionFormat cfg \<in> dom ArchiveExtensions \<longrightarrow>
      ValidateConfig env cfg = ValidateConfig env (with_selector ''none'' cfg)
      \<and> (timeouts_parse env cfg \<and> storage_class_listed env cfg \<and> key_pair_loads env cfg \<longrightarrow>
           ValidateConfig env cfg = None))"
proof (intro conjI impI)
  assume "GetCompressionFormat cfg \<noteq> ''none'' \<and> GetCompressionFormat cfg \<notin> dom ArchiveExtensions"
  then show "ValidateConfig env cfg =
        Some (ErrorString ([CHR 0x27] @ GetCompressionFormat cfg
                           @ ''' is unsupported compression format''))"
    by (auto simp: ValidateConfig_def unsupported_format_error_def dom_def)
next
  assume "GetCompressionFormat cfg = ''none'' \<or> GetCompressionFormat cfg \<in> dom ArchiveExtensions"
  then show "ValidateConfig env cfg = ValidateConfig env (with_selector ''none'' cfg)"
    by (simp add: ValidateConfig_format_passes format_check_passes_def)
next
  assume "GetCompressionFormat cfg = ''none'' \<or> GetCompressionFormat cfg \<in> dom ArchiveExtensions"
    and "timeouts_parse env cfg \<and> storage_class_listed env cfg \<and> key_pair_loads env cfg"
  then show "ValidateConfig env cfg = None"
    by (simp add: ValidateConfig_None_iff format_check_passes_def)
qed

lemma sample_env_simps:
  "time_ParseDuration sample_env ''5m'' = None"
  "time_ParseDuration sample_env ''2m'' = None"
  "s3_StorageClass_Values sample_env = [''STANDARD'', ''REDUCED_REDUNDANCY'', ''STANDARD_IA'', ''ONEZONE_IA'',
        ''INTELLIGENT_TIERING'', ''GLACIER'', ''DEEP_ARCHIVE'', ''OUTPOSTS'']"
  by (simp_all add: sample_env_def)

lemma DefaultConfig_simps:
  "RemoteStorage (General DefaultConfig) = ''s3''"
  "S3_CompressionFormat (S3 DefaultConfig) = ''tar''"
  "S3_StorageClass (S3 DefaultConfig) = ''STANDARD''"
  "CH_Timeout (ClickHouse DefaultConfig) = ''5m''"
  "COS_Timeout (COS DefaultConfig) = ''2m''"
  "FTP_Timeout (FTP DefaultConfig) = ''2m''"
  "API_Secure (API DefaultConfig) = False"
  "COS_Path (COS DefaultConfig) = []"
  by (simp_all add: DefaultConfig_def s3_StorageClassStandard_def)

lemma upper_char_simps:
  "strings_ToUpper ''STANDARD'' = ''STANDARD''"
  "strings_ToUpper ''standard'' = ''STANDARD''"
  "strings_ToUpper ''bogus'' = ''BOGUS''"
  by (simp_all add: strings_ToUpper_def upper_char_def)

lemma with_S3_format_sections:
  "General (with_S3_format f cfg) = General cfg"
  "ClickHouse (with_S3_format f cfg) = ClickHouse cfg"
  "COS (with_S3_format f cfg) = COS cfg"
  "API (with_S3_format f cfg) = API cfg"
  "FTP (with_S3_format f cfg) = FTP cfg"
  "S3_CompressionFormat (S3 (with_S3_format f cfg)) = f"
  "S3_StorageClass (S3 (with_S3_format f cfg)) = S3_StorageClass (S3 cfg)"
  by (simp_all add: with_S3_format_def)

lemma DefaultConfig_other_checks:
  "timeouts_parse sample_env DefaultConfig"
  "storage_class_listed sample_env DefaultConfig"
  "key_pair_loads sample_env DefaultConfig"
  by (simp_all add: timeouts_parse_def storage_class_listed_def key_pair_loads_def
      DefaultConfig_simps sample_env_simps upper_char_simps)

lemma other_checks_with_S3_format:
  "timeouts_parse env (with_S3_format f cfg) = timeouts_parse env cfg"
  "storage_class_listed env (with_S3_format f cfg) = storage_class_listed env cfg"
  "key_pair_loads env (with_S3_format f cfg) = key_pair_loads env cfg"
  by (simp_all add: timeouts_parse_def storage_class_listed_def key_pair_loads_def
      with_S3_format_sections)

lemma other_checks_with_selector:
  "timeouts_parse env (with_selector sel cfg) = timeouts_parse env cfg"
  "storage_class_listed env (with_selector sel cfg) = storage_class_listed env cfg"
  "key_pair_loads env (with_selector sel cfg) = key_pair_loads env cfg"
  by (simp_all add: timeouts_parse_def storage_class_listed_def key_pair_loads_def
      with_selector_sections)

lemma GetCompressionFormat_with_S3_format:
  "GetCompressionFormat (with_S3_format f DefaultConfig) = f"
  by (simp add: GetCompressionFormat_def with_S3_format_sections DefaultConfig_simps)

text \<open>
  The format \<open>zip\<close> is rejected by name; \<open>gzip\<close> and the selector \<open>none\<close> pass.
\<close>

theorem ValidateConfig_compression_format_witness:
  "GetCompressionFormat (with_S3_format ''zip'' DefaultConfig) = ''zip''
   \<and> ''zip'' \<notin> dom ArchiveExtensions
   \<and> ValidateConfig sample_env (with_S3_format ''zip'' DefaultConfig) =
       Some (ErrorString ([CHR 0x27] @ ''zip'' @ ''' is unsupported compression format''))
   \<and> GetCompressionFormat (with_S3_format ''gzip'' DefaultConfig) = ''gzip''
   \<and> ''gzip'' \<in> dom ArchiveExtensions
   \<and> ValidateConfig sample_env (with_S3_format ''gzip'' DefaultConfig) = None
   \<and> GetCompressionFormat (with_selector ''none'' DefaultConfig) = ''none''
   \<and> ValidateConfig sample_env (with_selector ''none'' DefaultConfig) = None"
proof -
  have zip: "''zip'' \<noteq> ''none'' \<and> ''zip'' \<notin> dom ArchiveExtensions"
    by (simp add: ArchiveExtensions_dom)
  have gzip: "''gzip'' \<in> dom ArchiveExtensions"
    by (simp add: ArchiveExtensions_dom)
  have r1: "ValidateConfig sample_env (with_S3_format ''zip'' DefaultConfig) =
       Some (ErrorString ([CHR 0x27] @ ''zip'' @ ''' is unsupported compression format''))"
    using ValidateConfig_compression_format [of "with_S3_format ''zip'' DefaultConfig" sample_env] zip
    unfolding GetCompressionFormat_with_S3_format by blast
  have r2: "ValidateConfig sample_env (with_S3_format ''gzip'' DefaultConfig) = None"
    using ValidateConfig_compression_format [of "with_S3_format ''gzip'' DefaultConfig" sample_env] gzip
    unfolding GetCompressionFormat_with_S3_format other_checks_with_S3_format
    using DefaultConfig_other_checks by blast
  have r3: "ValidateConfig sample_env (with_selector ''none'' DefaultConfig) = None"
    using ValidateConfig_compression_format [of "with_selector ''none'' DefaultConfig" sample_env]
    unfolding GetCompressionFormat_with_selector_none other_checks_with_selector
    using DefaultConfig_other_checks by blast
  show ?thesis
    using zip gzip r1 r2 r3
    by (simp only: GetCompressionFormat_with_S3_format GetCompressionFormat_with_selector_none
        simp_thms)
qed

lemma with_S3_class_sections:
  "General (with_S3_class k cfg) = General cfg"
  "ClickHouse (with_S3_class k cfg) = ClickHouse cfg"
  "GCS (with_S3_class k cfg) = GCS cfg"
  "COS (with_S3_class k cfg) = COS cfg"
  "API (with_S3_class k cfg) = API cfg"
  "FTP (with_S3_class k cfg) = FTP cfg"
  "AzureBlob (with_S3_class k cfg) = AzureBlob cfg"
  "S3_CompressionFormat (S3 (with_S3_class k cfg)) = S3_CompressionFormat (S3 cfg)"
  "S3_StorageClass (S3 (with_S3_class k cfg)) = k"
  by (simp_all add: with_S3_class_def)

lemma GetCompressionFormat_with_S3_class:
  "GetCompressionFormat (with_S3_class k cfg) = GetCompressionFormat cfg"
  by (simp add: GetCompressionFormat_def with_S3_class_sections Let_def cong: if_cong)

lemma other_checks_with_S3_class:
  "format_check_passes (with_S3_class k cfg) = format_check_passes cfg"
  "timeouts_parse env (with_S3_class k cfg) = timeouts_parse env cfg"
  "key_pair_loads env (with_S3_class k cfg) = key_pair_loads env cfg"
  "storage_class_listed env (with_S3_class k cfg) \<longleftrightarrow>
     strings_ToUpper k \<in> set (s3_StorageClass_Values env)"
  by (simp_all add: format_check_passes_def GetCompressionFormat_with_S3_class
      timeouts_parse_def storage_class_listed_def key_pair_loads_def with_S3_class_sections)

lemma ValidateConfig_bad_storage_class:
  assumes "format_check_passes cfg" and "timeouts_parse env cfg"
    and "\<not> storage_class_listed env cfg"
  shows "ValidateConfig env cfg =
           Some (bad_storage_class_error (S3_StorageClass (S3 cfg)) (s3_StorageClass_Values env))"
  using assms
  unfolding ValidateConfig_def format_check_passes_def timeouts_parse_def
    storage_class_listed_def storageClassOk_iff
  by (auto simp: dom_def)

lemma upper_table_match:
  assumes "map strings_ToUpper vs = vs"
  shows "strings_ToUpper c \<in> set vs \<longleftrightarrow> (\<exists>v \<in> set vs. strings_ToUpper c = strings_ToUpper v)"
proof -
  from assms have "set vs = strings_ToUpper ` set vs"
    by (metis set_map)
  then show ?thesis by auto
qed

lemma sample_env_upper:
  "map strings_ToUpper (s3_StorageClass_Values sample_env) = s3_StorageClass_Values sample_env"
  by (simp add: sample_env_simps strings_ToUpper_def upper_char_def)

text \<open>
  C6: \<open>ValidateConfig\<close> accepts the S3 storage class exactly when its upper-cased
  value is one of the enumerated storage classes. A configuration that validates has
  such a class; when the other checks pass, validation succeeds if and only if the class
  is one; when the checks before it pass and the class is none of them, the result is
  the error that names the class and lists the values; two settings that differ in
  case only are accepted or rejected together; and over a table of upper-case values,
  as the enumerated one is, the accepted settings are those equal to a value of the
  table up to case.
\<close>

theorem ValidateConfig_storage_class:
  "(ValidateConfig env cfg = None \<longrightarrow>
      strings_ToUpper (S3_StorageClass (S3 cfg)) \<in> set (s3_StorageClass_Values env))
   \<and> (format_check_passes cfg \<and> timeouts_parse env cfg \<and> key_pair_loads env cfg \<longrightarrow>
        (ValidateConfig env cfg = None \<longleftrightarrow>
           strings_ToUpper (S3_StorageClass (S3 cfg)) \<in> set (s3_StorageClass_Values env)))
   \<and> (format_check_passes cfg \<and> timeouts_parse env cfg
        \<and> strings_ToUpper (S3_StorageClass (S3 cfg)) \<notin> set (s3_StorageClass_Values env) \<longrightarrow>
        ValidateConfig env cfg =
          Some (ErrorString ([CHR 0x27] @ S3_StorageClass (S3 cfg)
                  @ ''' is bad S3_STORAGE_CLASS, select one of: ''
                  @ strings_Join (s3_StorageClass_Values env) '', '')))
   \<and> (strings_ToUpper k = strings_ToUpper k' \<longrightarrow>
        (ValidateConfig env (with_S3_class k cfg) = None
           \<longleftrightarrow> ValidateConfig env (with_S3_class k' cfg) = None))
   \<and> (format_check_passes cfg \<and> timeouts_parse env cfg \<and> key_pair_loads env cfg
        \<and> map strings_ToUpper (s3_StorageClass_Values env) = s3_StorageClass_Values env \<longrightarrow>
        (ValidateConfig env cfg = None \<longleftrightarrow>
           (\<exists>v \<in> set (s3_StorageClass_Values env).
              strings_ToUpper (S3_StorageClass (S3 cfg)) = strings_ToUpper v)))"
proof (intro conjI impI)
  assume "ValidateConfig env cfg = None"
  then show "strings_ToUpper (S3_StorageClass (S3 cfg)) \<in> set (s3_StorageClass_Values env)"
    by (simp add: ValidateConfig_None_iff storage_class_listed_def)
next
  assume "format_check_passes cfg \<and> timeouts_parse env cfg \<and> key_pair_loads env cfg"
  then show "ValidateConfig env cfg = None \<longleftrightarrow>
      strings_ToUpper (S3_StorageClass (S3 cfg)) \<in> set (s3_StorageClass_Values env)"
    by (simp add: ValidateConfig_None_iff storage_class_listed_def)
next
  assume "format_check_passes cfg \<and> timeouts_parse env cfg
        \<and> strings_ToUpper (S3_StorageClass (S3 cfg)) \<notin> set (s3_StorageClass_Values env)"
  then show "ValidateConfig env cfg =
          Some (ErrorString ([CHR 0x27] @ S3_StorageClass (S3 cfg)
                  @ ''' is bad S3_STORAGE_CLASS, select one of: ''
                  @ strings_Join (s3_StorageClass_Values env) '', ''))"
    using ValidateConfig_bad_storage_class [of cfg env]
    by (simp add: storage_class_listed_def bad_storage_class_error_def)
next
  assume "strings_ToUpper k = strings_ToUpper k'"
  then show "ValidateConfig env (with_S3_class k cfg) = None
           \<longleftrightarrow> ValidateConfig env (with_S3_class k' cfg) = None"
    by (simp add: ValidateConfig_None_iff other_checks_with_S3_class)
next
  assume a: "format_check_passes cfg \<and> timeouts_parse env cfg \<and> key_pair_loads env cfg
        \<and> map strings_ToUpper (s3_StorageClass_Values env) = s3_StorageClass_Values env"
  then have "map strings_ToUpper (s3_StorageClass_Values env) = s3_StorageClass_Values env"
    by blast
  from upper_table_match [OF this, of "S3_StorageClass (S3 cfg)"] a
  show "ValidateConfig env cfg = None \<longleftrightarrow>
           (\<exists>v \<in> set (s3_StorageClass_Values env).
              strings_ToUpper (S3_StorageClass (S3 cfg)) = strings_ToUpper v)"
    by (simp add: ValidateConfig_None_iff storage_class_listed_def)
qed

lemma DefaultConfig_format_check: "format_check_passes DefaultConfig"
  by (simp add: format_check_passes_def GetCompressionFormat_def DefaultConfig_simps
      ArchiveExtensions_dom)

text \<open>
  With the storage classes of the AWS SDK, \<open>standard\<close> is accepted as \<open>STANDARD\<close>
  is, and \<open>bogus\<close> is rejected with an error.
\<close>

theorem ValidateConfig_storage_class_witness:
  "format_check_passes (with_S3_class ''standard'' DefaultConfig)
   \<and> timeouts_parse sample_env (with_S3_class ''standard'' DefaultConfig)
   \<and> key_pair_loads sample_env (with_S3_class ''standard'' DefaultConfig)
   \<and> strings_ToUpper ''standard'' \<in> set (s3_StorageClass_Values sample_env)
   \<and> ValidateConfig sample_env (with_S3_class ''standard'' DefaultConfig) = None
   \<and> strings_ToUpper ''standard'' = strings_ToUpper ''STANDARD''
   \<and> ValidateConfig sample_env (with_S3_class ''STANDARD'' DefaultConfig) = None
   \<and> format_check_passes (with_S3_class ''bogus'' DefaultConfig)
   \<and> timeouts_parse sample_env (with_S3_class ''bogus'' DefaultConfig)
   \<and> strings_ToUpper ''bogus'' \<notin> set (s3_StorageClass_Values sample_env)
   \<and> ValidateConfig sample_env (with_S3_class ''bogus'' DefaultConfig) =
       Some (ErrorString ([CHR 0x27] @ ''bogus''
               @ ''' is bad S3_STORAGE_CLASS, select one of: ''
               @ strings_Join (s3_StorageClass_Values sample_env) '', ''))
   \<and> ValidateConfig sample_env (with_S3_class ''bogus'' DefaultConfig) \<noteq> None
   \<and> map strings_ToUpper (s3_StorageClass_Values sample_env)
       = s3_StorageClass_Values sample_env
   \<and> ''STANDARD'' \<in> set (s3_StorageClass_Values sample_env)"
proof -
  have listed: "''STANDARD'' \<in> set (s3_StorageClass_Values sample_env)"
    by (simp add: sample_env_simps)
  have some: "\<exists>v \<in> set (s3_StorageClass_Values sample_env).
      strings_ToUpper (S3_StorageClass (S3 (with_S3_class ''standard'' DefaultConfig)))
        = strings_ToUpper v"
    by (rule bexI [OF _ listed]) (simp add: with_S3_class_sections upper_char_simps)
  have pre: "format_check_passes (with_S3_class k DefaultConfig)
      \<and> timeouts_parse sample_env (with_S3_class k DefaultConfig)
      \<and> key_pair_loads sample_env (with_S3_class k DefaultConfig)" for k
    by (simp add: other_checks_with_S3_class DefaultConfig_format_check
        DefaultConfig_other_checks)
  have std: "strings_ToUpper ''standard'' \<in> set (s3_StorageClass_Values sample_env)"
    by (simp add: upper_char_simps sample_env_simps)
  have same: "strings_ToUpper ''standard'' = strings_ToUpper ''STANDARD''"
    by (simp add: upper_char_simps)
  have bogus: "strings_ToUpper ''bogus'' \<notin> set (s3_StorageClass_Values sample_env)"
    by (simp add: upper_char_simps sample_env_simps)
  have r1: "ValidateConfig sample_env (with_S3_class ''standard'' DefaultConfig) = None"
    using ValidateConfig_storage_class
      [of sample_env "with_S3_class ''standard'' DefaultConfig"] pre [of "''standard''"]
      sample_env_upper some
    by blast
  have r2: "ValidateConfig sample_env (with_S3_class ''STANDARD'' DefaultConfig) = None"
    using ValidateConfig_storage_class
      [of sample_env DefaultConfig "''standard''" "''STANDARD''"] same r1
    by blast
  have r3: "ValidateConfig sample_env (with_S3_class ''bogus'' DefaultConfig) =
       Some (ErrorString ([CHR 0x27] @ ''bogus''
               @ ''' is bad S3_STORAGE_CLASS, select one of: ''
               @ strings_Join (s3_StorageClass_Values sample_env) '', ''))"
    using ValidateConfig_storage_class
      [of sample_env "with_S3_class ''bogus'' DefaultConfig"] pre [of "''bogus''"] bogus
    unfolding with_S3_class_sections by blast
  from r3 have r4: "ValidateConfig sample_env (with_S3_class ''bogus'' DefaultConfig) \<noteq> None"
    by simp
  show ?thesis
    using pre [of "''standard''"] pre [of "''bogus''"] std same bogus r1 r2 r3 r4
      sample_env_upper listed
    by blast
qed

text \<open>
  C7, as the code has it: for a selector that is none of \<open>s3\<close>, \<open>gcs\<close>, \<open>cos\<close>,
  \<open>ftp\<close>, \<open>azblob\<close> and \<open>none\<close>, the effective compression format is the string
  \<open>unknown\<close>; for a selector that is none of the five backends, the archive extension
  is the empty string. Neither result reads any backend section.
\<close>

theorem unrecognized_selector_accessors:
  "(RemoteStorage (General cfg) \<notin> {''s3'', ''gcs'', ''cos'', ''ftp'', ''azblob'', ''none''} \<longrightarrow>
      GetCompressionFormat cfg = ''unknown'')
   \<and> (RemoteStorage (General cfg) \<notin> {''s3'', ''gcs'', ''cos'', ''ftp'', ''azblob''} \<longrightarrow>
      GetArchiveExtension cfg = [])"
  by (simp add: GetCompressionFormat_def GetArchiveExtension_def)

text \<open>The selector \<open>bogus\<close>.\<close>

theorem unrecognized_selector_accessors_witness:
  "RemoteStorage (General (with_selector ''bogus'' DefaultConfig))
     \<notin> {''s3'', ''gcs'', ''cos'', ''ftp'', ''azblob'', ''none''}
   \<and> GetCompressionFormat (with_selector ''bogus'' DefaultConfig) = ''unknown''
   \<and> GetArchiveExtension (with_selector ''bogus'' DefaultConfig) = []"
  using unrecognized_selector_accessors [of "with_selector ''bogus'' DefaultConfig"]
  by (simp add: with_selector_sections)

text \<open>
  C7 as stated fails for the archive extension: for the unrecognized selector \<open>bogus\<close>
  it is not \<open>unknown\<close>.
\<close>

theorem archive_extension_unknown_counterexample:
  "RemoteStorage (General (with_selector ''bogus'' DefaultConfig))
     \<notin> {''s3'', ''gcs'', ''cos'', ''ftp'', ''azblob'', ''none''}
   \<and> GetArchiveExtension (with_selector ''bogus'' DefaultConfig) \<noteq> ''unknown''"
  by (simp add: GetArchiveExtension_def with_selector_sections)

lemma GetArchiveExtension_index:
  "RemoteStorage (General cfg) \<in> {''s3'', ''gcs'', ''cos'', ''ftp'', ''azblob''} \<Longrightarrow>
     GetArchiveExtension cfg = ArchiveExtensions_index (GetCompressionFormat cfg)"
  by (auto simp: GetArchiveExtension_def GetCompressionFormat_def)

text \<open>
  C9: for a configuration on which \<open>ValidateConfig\<close> returns success, the effective
  compression format is \<open>none\<close> or a key of the archive extension table; and when it
  is not \<open>none\<close> and the selector is one of the five backends, the archive extension
  is a non-empty string that begins with \<open>tar\<close>.
\<close>

theorem validated_format_has_extension:
  "ValidateConfig env cfg = None \<Longrightarrow>
     (GetCompressionFormat cfg = ''none'' \<or> GetCompressionFormat cfg \<in> dom ArchiveExtensions)
     \<and> (GetCompressionFormat cfg \<noteq> ''none''
          \<and> RemoteStorage (General cfg) \<in> {''s3'', ''gcs'', ''cos'', ''ftp'', ''azblob''} \<longrightarrow>
          GetArchiveExtension cfg \<noteq> [] \<and> strings_HasPrefix (GetArchiveExtension cfg) ''tar'')"
proof -
  assume ok: "ValidateConfig env cfg = None"
  then have fmt: "GetCompressionFormat cfg = ''none'' \<or> GetCompressionFormat cfg \<in> dom ArchiveExtensions"
    by (simp add: ValidateConfig_None_iff format_check_passes_def)
  have "GetArchiveExtension cfg \<noteq> [] \<and> strings_HasPrefix (GetArchiveExtension cfg) ''tar''"
    if ne: "GetCompressionFormat cfg \<noteq> ''none''"
      and sel: "RemoteStorage (General cfg) \<in> {''s3'', ''gcs'', ''cos'', ''ftp'', ''azblob''}"
  proof -
    from fmt ne obtain v where v: "ArchiveExtensions (GetCompressionFormat cfg) = Some v"
      by auto
    from sel have "GetArchiveExtension cfg = ArchiveExtensions_index (GetCompressionFormat cfg)"
      by (rule GetArchiveExtension_index)
    with v have "GetArchiveExtension cfg = v"
      by (simp add: ArchiveExtensions_index_def)
    with ArchiveExtensions_values [OF v] show ?thesis by simp
  qed
  with fmt show ?thesis by blast
qed

text \<open>The default configuration with the format \<open>gzip\<close> for S3.\<close>

theorem validated_format_has_extension_witness:
  "ValidateConfig sample_env (with_S3_format ''gzip'' DefaultConfig) = None
   \<and> GetCompressionFormat (with_S3_format ''gzip'' DefaultConfig) = ''gzip''
   \<and> RemoteStorage (General (with_S3_format ''gzip'' DefaultConfig)) = ''s3''
   \<and> GetArchiveExtension (with_S3_format ''gzip'' DefaultConfig) = ''tar.gz''
   \<and> strings_HasPrefix (GetArchiveExtension (with_S3_format ''gzip'' DefaultConfig)) ''tar''"
proof -
  have ok: "ValidateConfig sample_env (with_S3_format ''gzip'' DefaultConfig) = None"
    by (simp add: ValidateConfig_None_iff format_check_passes_def
        GetCompressionFormat_with_S3_format ArchiveExtensions_dom
        other_checks_with_S3_format DefaultConfig_other_checks)
  have ext: "GetArchiveExtension (with_S3_format ''gzip'' DefaultConfig) = ''tar.gz''"
    by (simp add: GetArchiveExtension_def with_S3_format_sections DefaultConfig_simps
        ArchiveExtensions_index_def ArchiveExtensions_def)
  have sel: "RemoteStorage (General (with_S3_format ''gzip'' DefaultConfig)) = ''s3''"
    by (simp add: with_S3_format_sections DefaultConfig_simps)
  from validated_format_has_extension [OF ok]
  have "strings_HasPrefix (GetArchiveExtension (with_S3_format ''gzip'' DefaultConfig)) ''tar''"
    by (simp add: GetCompressionFormat_with_S3_format sel)
  with ok ext sel show ?thesis
    by (simp add: GetCompressionFormat_with_S3_format)
qed

section \<open>Loading the configuration\<close>

lemma LoadConfig_environment_overlay:
  "LoadConfig env loc =
     (case environment_overlay env loc of
        Inl err \<Rightarrow> (None, Some err)
      | Inr cfg \<Rightarrow> (Some cfg, ValidateConfig env cfg))"
  unfolding LoadConfig_def environment_overlay_def file_overlay_def Let_def
  by (auto split: sum.splits option.splits prod.splits)

text \<open>
  C4, as the code has it: when reading the file fails (for another reason than a
  missing file), when parsing it fails or when the environment overlay fails,
  \<open>LoadConfig\<close> returns an error and no configuration. When the overlays succeed,
  it returns the configuration after both overlays together with the result of its
  validation: a validation error comes with that completely overlaid configuration.
  It never returns neither a configuration nor an error.
\<close>

theorem LoadConfig_failures:
  "(\<forall>err. ioutil_ReadFile env loc = Inl err \<and> \<not> os_IsNotExist err \<longrightarrow>
      LoadConfig env loc = (None, Some (ErrorfV ''can't open config file: '' err)))
   \<and> (\<forall>err. environment_overlay env loc = Inl err \<longrightarrow> LoadConfig env loc = (None, Some err))
   \<and> (\<forall>cfg. environment_overlay env loc = Inr cfg \<longrightarrow>
        LoadConfig env loc = (Some cfg, ValidateConfig env cfg))
   \<and> (fst (LoadConfig env loc) = None \<longrightarrow> snd (LoadConfig env loc) \<noteq> None)"
proof (intro conjI allI impI)
  fix err
  assume "ioutil_ReadFile env loc = Inl err \<and> \<not> os_IsNotExist err"
  then show "LoadConfig env loc = (None, Some (ErrorfV ''can't open config file: '' err))"
    by (simp add: LoadConfig_def)
next
  fix err
  assume "environment_overlay env loc = Inl err"
  then show "LoadConfig env loc = (None, Some err)"
    by (simp add: LoadConfig_environment_overlay)
next
  fix cfg
  assume "environment_overlay env loc = Inr cfg"
  then show "LoadConfig env loc = (Some cfg, ValidateConfig env cfg)"
    by (simp add: LoadConfig_environment_overlay)
next
  assume "fst (LoadConfig env loc) = None"
  then show "snd (LoadConfig env loc) \<noteq> None"
    by (simp add: LoadConfig_environment_overlay split: sum.splits)
qed

lemma sample_env_overlay:
  "environment_overlay sample_env loc = Inr DefaultConfig"
  by (simp add: environment_overlay_def file_overlay_def sample_env_def)

lemma bogus_class_env_overlay:
  "environment_overlay bogus_class_env loc = Inr (with_S3_class ''bogus'' DefaultConfig)"
  by (simp add: environment_overlay_def file_overlay_def bogus_class_env_def sample_env_def
      with_S3_class_def)

lemma bogus_class_env_fields:
  "time_ParseDuration bogus_class_env = time_ParseDuration sample_env"
  "s3_StorageClass_Values bogus_class_env = s3_StorageClass_Values sample_env"
  "tls_LoadX509KeyPair bogus_class_env = tls_LoadX509KeyPair sample_env"
  by (simp_all add: bogus_class_env_def)

lemma bogus_class_not_valid:
  "ValidateConfig bogus_class_env (with_S3_class ''bogus'' DefaultConfig) \<noteq> None"
  by (simp add: ValidateConfig_None_iff other_checks_with_S3_class bogus_class_env_fields
      upper_char_simps sample_env_simps)

text \<open>A file that cannot be read, and an environment whose storage class does not validate.\<close>

theorem LoadConfig_failures_witness:
  "ioutil_ReadFile unreadable_env ''config.yml'' = Inl (ErrorString ''permission denied'')
   \<and> \<not> os_IsNotExist (ErrorString ''permission denied'')
   \<and> LoadConfig unreadable_env ''config.yml'' =
       (None, Some (ErrorfV ''can't open config file: '' (ErrorString ''permission denied'')))
   \<and> environment_overlay unreadable_env ''config.yml'' =
       Inl (ErrorfV ''can't open config file: '' (ErrorString ''permission denied''))
   \<and> environment_overlay bogus_class_env ''config.yml'' =
       Inr (with_S3_class ''bogus'' DefaultConfig)
   \<and> LoadConfig bogus_class_env ''config.yml'' =
       (Some (with_S3_class ''bogus'' DefaultConfig),
        ValidateConfig bogus_class_env (with_S3_class ''bogus'' DefaultConfig))
   \<and> ValidateConfig bogus_class_env (with_S3_class ''bogus'' DefaultConfig) \<noteq> None"
proof -
  have rd: "ioutil_ReadFile unreadable_env ''config.yml'' = Inl (ErrorString ''permission denied'')
      \<and> \<not> os_IsNotExist (ErrorString ''permission denied'')"
    by (simp add: unreadable_env_def)
  have ov: "environment_overlay unreadable_env ''config.yml'' =
       Inl (ErrorfV ''can't open config file: '' (ErrorString ''permission denied''))"
    by (simp add: environment_overlay_def file_overlay_def unreadable_env_def)
  from LoadConfig_failures [of unreadable_env "''config.yml''"] rd
  have r1: "LoadConfig unreadable_env ''config.yml'' =
       (None, Some (ErrorfV ''can't open config file: '' (ErrorString ''permission denied'')))"
    by blast
  from LoadConfig_failures [of bogus_class_env "''config.yml''"] bogus_class_env_overlay
  have r2: "LoadConfig bogus_class_env ''config.yml'' =
       (Some (with_S3_class ''bogus'' DefaultConfig),
        ValidateConfig bogus_class_env (with_S3_class ''bogus'' DefaultConfig))"
    by blast
  show ?thesis
    using rd ov r1 r2 bogus_class_env_overlay [of "''config.yml''"] bogus_class_not_valid
    by blast
qed

text \<open>
  C4 as stated fails at the validation stage: with an environment that sets the storage
  class to \<open>bogus\<close>, validation fails and \<open>LoadConfig\<close> still returns a
  configuration beside the error.
\<close>

theorem LoadConfig_validation_failure_counterexample:
  "ValidateConfig bogus_class_env (with_S3_class ''bogus'' DefaultConfig) \<noteq> None
   \<and> fst (LoadConfig bogus_class_env ''config.yml'') = Some (with_S3_class ''bogus'' DefaultConfig)
   \<and> snd (LoadConfig bogus_class_env ''config.yml'') \<noteq> None"
  using bogus_class_not_valid
  by (simp add: LoadConfig_environment_overlay bogus_class_env_overlay)

section \<open>Loading table metadata\<close>

lemma Load_cases:
  "Load env tm location =
     (case md_ReadFile env location of
        Inl err \<Rightarrow> ((0, Some err), tm)
      | Inr data \<Rightarrow>
          (case fst (json_Unmarshal env data tm) of
             Some err \<Rightarrow> ((0, Some err), snd (json_Unmarshal env data tm))
           | None \<Rightarrow> ((of_nat (length data), None), snd (json_Unmarshal env data tm))))"
  by (simp add: Load_def split: sum.splits prod.splits option.splits)

lemma unat_of_nat_length_64:
  "n < 2 ^ 63 \<Longrightarrow> unat (of_nat n :: 64 word) = n"
proof -
  assume "n < 2 ^ 63"
  also have "(2::nat) ^ 63 < 2 ^ 64" by simp
  finally have "n < 2 ^ LENGTH(64)" by simp
  then show ?thesis by (rule of_nat_inverse [OF refl])
qed

text \<open>
  C10: \<open>TableMetadata.Load\<close> returns a non-nil error exactly when reading the file
  fails or decoding its contents fails, and the size is then 0; when both succeed it
  returns a nil error and the length of the bytes read, which as a \<open>uint64\<close> is the
  exact length (a Go slice is shorter than \<open>2 ^ 63\<close>).
\<close>

theorem Load_size_and_error:
  "(snd (fst (Load env tm location)) \<noteq> None \<longleftrightarrow>
      isl (md_ReadFile env location)
      \<or> (\<exists>data. md_ReadFile env location = Inr data \<and> fst (json_Unmarshal env data tm) \<noteq> None))
   \<and> (snd (fst (Load env tm location)) \<noteq> None \<longrightarrow> fst (fst (Load env tm location)) = 0)
   \<and> (\<forall>data. md_ReadFile env location = Inr data \<and> fst (json_Unmarshal env data tm) = None \<longrightarrow>
         snd (fst (Load env tm location)) = None
         \<and> fst (fst (Load env tm location)) = of_nat (length data)
         \<and> (length data < 2 ^ 63 \<longrightarrow> unat (fst (fst (Load env tm location))) = length data))"
  by (auto simp: Load_cases unat_of_nat_length_64 split: sum.splits option.splits)

lemma sample_metadata_env_simps:
  "md_ReadFile sample_metadata_env ''/backup/metadata/t.json'' = Inr ''{}''"
  "md_ReadFile sample_metadata_env ''/backup/metadata/broken.json'' = Inr ''{''"
  "md_ReadFile sample_metadata_env ''/backup/metadata/none.json''
     = Inl (NotExistError ''no such file or directory'')"
  "json_Unmarshal sample_metadata_env ''{}'' tm = (None, tm)"
  "json_Unmarshal sample_metadata_env ''{'' tm
     = (Some (ErrorString ''unexpected end of JSON input''), tm)"
  by (simp_all add: sample_metadata_env_def)

text \<open>A file that decodes, a file that does not, and a file that is not there.\<close>

theorem Load_size_and_error_witness:
  "md_ReadFile sample_metadata_env ''/backup/metadata/t.json'' = Inr ''{}''
   \<and> fst (json_Unmarshal sample_metadata_env ''{}'' ''old'') = None
   \<and> length ''{}'' < 2 ^ 63
   \<and> snd (fst (Load sample_metadata_env ''old'' ''/backup/metadata/t.json'')) = None
   \<and> unat (fst (fst (Load sample_metadata_env ''old'' ''/backup/metadata/t.json''))) = 2
   \<and> md_ReadFile sample_metadata_env ''/backup/metadata/broken.json'' = Inr ''{''
   \<and> fst (json_Unmarshal sample_metadata_env ''{'' ''old'') \<noteq> None
   \<and> snd (fst (Load sample_metadata_env ''old'' ''/backup/metadata/broken.json'')) \<noteq> None
   \<and> fst (fst (Load sample_metadata_env ''old'' ''/backup/metadata/broken.json'')) = 0
   \<and> isl (md_ReadFile sample_metadata_env ''/backup/metadata/none.json'')
   \<and> snd (fst (Load sample_metadata_env ''old'' ''/backup/metadata/none.json'')) \<noteq> None
   \<and> fst (fst (Load sample_metadata_env ''old'' ''/backup/metadata/none.json'')) = 0"
  using Load_size_and_error [of sample_metadata_env "''old''" "''/backup/metadata/t.json''"]
    Load_size_and_error [of sample_metadata_env "''old''" "''/backup/metadata/broken.json''"]
    Load_size_and_error [of sample_metadata_env "''old''" "''/backup/metadata/none.json''"]
  by (simp add: sample_metadata_env_simps)

section \<open>The COS adapter\<close>

lemma parseTime_loop_all_fail:
  "\<forall>l \<in> set ls. isl (tp l text) \<Longrightarrow> ls \<noteq> [] \<Longrightarrow>
     fst (parseTime_loop tp text ls r) = zero_time \<and> snd (parseTime_loop tp text ls r) \<noteq> None"
proof (induction ls arbitrary: r)
  case Nil
  then show ?case by simp
next
  case (Cons l ls)
  from Cons.prems obtain err where err: "tp l text = Inl err"
    by (cases "tp l text") auto
  show ?case
  proof (cases "ls = []")
    case True
    with err show ?thesis by simp
  next
    case False
    with Cons err show ?thesis by simp
  qed
qed

lemma parseTime_loop_first_success:
  "\<forall>l \<in> set pre. isl (tp l text) \<Longrightarrow> tp layout text = Inr t \<Longrightarrow>
     parseTime_loop tp text (pre @ layout # post) r = (t, None)"
proof (induction pre arbitrary: r)
  case Nil
  then show ?case by simp
next
  case (Cons l pre)
  from Cons.prems obtain err where "tp l text = Inl err"
    by (cases "tp l text") auto
  with Cons show ?case by simp
qed

lemma timeFormats_not_empty: "timeFormats \<noteq> []"
  by (simp add: timeFormats_def)

lemma StatFile_success:
  "Object_Get (client c) (path_Join [COS_Path (COS_Config c), key]) = Inr resp \<Longrightarrow>
     fst (StatFile tp c key log) =
       Inr \<lparr> cosFile_size = ContentLength resp,
              cosFile_lastModified = fst (parseTime tp (Header_Date resp)),
              cosFile_name = Request_URL_Path resp \<rparr>"
  by (simp add: StatFile_def client_Object_Get_def split: prod.splits)

lemma walk_prefixes_record:
  "walk_prefixes record_visit prefix dirs seen =
     seen @ map (\<lambda>dir. \<lparr> cosFile_size = 0, cosFile_lastModified = zero_time,
                          cosFile_name = strings_TrimPrefix dir prefix \<rparr>) dirs"
  by (induction dirs arbitrary: seen) (simp_all add: record_visit_def)

lemma walk_contents_record:
  "walk_contents tp record_visit prefix vs seen =
     seen @ map (\<lambda>v. \<lparr> cosFile_size = Object_Size v,
                        cosFile_lastModified = fst (parseTime tp (Object_LastModified v)),
                        cosFile_name = strings_TrimPrefix (Object_Key v) prefix \<rparr>) vs"
  by (induction vs arbitrary: seen) (simp_all add: record_visit_def split: prod.splits)

lemma Walk_success:
  "Bucket_Get (client c) (if recursuve then [] else ''/'')
       (path_Join [COS_Path (COS_Config c), cosPath]) = Inr res \<Longrightarrow>
     fst (Walk tp c cosPath recursuve process s log) = None"
  by (auto simp: Walk_def client_Bucket_Get_def Let_def)

lemma visited_listing:
  "Bucket_Get (client c) (if recursuve then [] else ''/'')
       (path_Join [COS_Path (COS_Config c), cosPath]) = Inr res \<Longrightarrow>
     visited tp c cosPath recursuve =
       map (\<lambda>dir. \<lparr> cosFile_size = 0, cosFile_lastModified = zero_time,
                     cosFile_name = strings_TrimPrefix dir
                       (path_Join [COS_Path (COS_Config c), cosPath]) \<rparr>) (CommonPrefixes res)
       @ map (\<lambda>v. \<lparr> cosFile_size = Object_Size v,
                     cosFile_lastModified = fst (parseTime tp (Object_LastModified v)),
                     cosFile_name = strings_TrimPrefix (Object_Key v)
                       (path_Join [COS_Path (COS_Config c), cosPath]) \<rparr>) (Contents res)"
  by (auto simp: visited_def Walk_def client_Bucket_Get_def Let_def walk_prefixes_record
      walk_contents_record)

text \<open>
  C8: \<open>parseTime\<close> tries the layouts of \<open>timeFormats\<close> in their order and returns
  the time of the first layout that parses; when no layout parses, the time is the zero
  time. \<open>StatFile\<close> succeeds whenever the provider answers the request, and \<open>Walk\<close>
  whenever the provider answers the listing, with the time \<open>parseTime\<close> gives for
  each file, whether or not the timestamp parses.
\<close>

theorem parseTime_first_format:
  "(\<forall>pre layout post t.
      timeFormats = pre @ layout # post \<and> (\<forall>l \<in> set pre. isl (time_Parse l ts))
      \<and> time_Parse layout ts = Inr t \<longrightarrow>
      parseTime time_Parse ts = (t, None))
   \<and> ((\<forall>l \<in> set timeFormats. isl (time_Parse l ts)) \<longrightarrow>
        fst (parseTime time_Parse ts) = zero_time)
   \<and> (\<forall>resp. Object_Get (client c) (path_Join [COS_Path (COS_Config c), key]) = Inr resp \<longrightarrow>
        fst (StatFile time_Parse c key log) =
          Inr \<lparr> cosFile_size = ContentLength resp,
                 cosFile_lastModified = fst (parseTime time_Parse (Header_Date resp)),
                 cosFile_name = Request_URL_Path resp \<rparr>)
   \<and> (\<forall>res. Bucket_Get (client c) (if recursuve then [] else ''/'')
               (path_Join [COS_Path (COS_Config c), cosPath]) = Inr res \<longrightarrow>
        fst (Walk time_Parse c cosPath recursuve process s log) = None
        \<and> visited time_Parse c cosPath recursuve =
            map (\<lambda>dir. \<lparr> cosFile_size = 0, cosFile_lastModified = zero_time,
                          cosFile_name = strings_TrimPrefix dir
                            (path_Join [COS_Path (COS_Config c), cosPath]) \<rparr>)
              (CommonPrefixes res)
            @ map (\<lambda>v. \<lparr> cosFile_size = Object_Size v,
                          cosFile_lastModified =
                            fst (parseTime time_Parse (Object_LastModified v)),
                          cosFile_name = strings_TrimPrefix (Object_Key v)
                            (path_Join [COS_Path (COS_Config c), cosPath]) \<rparr>)
              (Contents res))"
proof (intro conjI allI impI)
  fix pre layout post t
  assume a: "timeFormats = pre @ layout # post \<and> (\<forall>l \<in> set pre. isl (time_Parse l ts))
      \<and> time_Parse layout ts = Inr t"
  from a have eq: "timeFormats = pre @ layout # post"
    by (rule conjunct1)
  from a have fails: "\<forall>l \<in> set pre. isl (time_Parse l ts)"
    and parses: "time_Parse layout ts = Inr t"
    by blast+
  have first: "parseTime_loop time_Parse ts (pre @ layout # post) (zero_time, None) = (t, None)"
    using fails parses by (rule parseTime_loop_first_success [of pre time_Parse ts layout t])
  show "parseTime time_Parse ts = (t, None)"
    unfolding parseTime_def eq by (rule first)
next
  assume "\<forall>l \<in> set timeFormats. isl (time_Parse l ts)"
  then show "fst (parseTime time_Parse ts) = zero_time"
    unfolding parseTime_def
    using parseTime_loop_all_fail [OF _ timeFormats_not_empty] by blast
next
  fix resp
  assume "Object_Get (client c) (path_Join [COS_Path (COS_Config c), key]) = Inr resp"
  then show "fst (StatFile time_Parse c key log) =
          Inr \<lparr> cosFile_size = ContentLength resp,
                 cosFile_lastModified = fst (parseTime time_Parse (Header_Date resp)),
                 cosFile_name = Request_URL_Path resp \<rparr>"
    by (rule StatFile_success)
next
  fix res
  assume "Bucket_Get (client c) (if recursuve then [] else ''/'')
               (path_Join [COS_Path (COS_Config c), cosPath]) = Inr res"
  then show "fst (Walk time_Parse c cosPath recursuve process s log) = None"
    by (rule Walk_success)
next
  fix res
  assume "Bucket_Get (client c) (if recursuve then [] else ''/'')
               (path_Join [COS_Path (COS_Config c), cosPath]) = Inr res"
  then show "visited time_Parse c cosPath recursuve =
            map (\<lambda>dir. \<lparr> cosFile_size = 0, cosFile_lastModified = zero_time,
                          cosFile_name = strings_TrimPrefix dir
                            (path_Join [COS_Path (COS_Config c), cosPath]) \<rparr>)
              (CommonPrefixes res)
            @ map (\<lambda>v. \<lparr> cosFile_size = Object_Size v,
                          cosFile_lastModified =
                            fst (parseTime time_Parse (Object_LastModified v)),
                          cosFile_name = strings_TrimPrefix (Object_Key v)
                            (path_Join [COS_Path (COS_Config c), cosPath]) \<rparr>)
              (Contents res)"
    by (rule visited_listing)
qed

lemma StatFile_requests:
  "snd (StatFile tp c key log) = log @ [ObjectGet (path_Join [COS_Path (COS_Config c), key])]"
  by (cases "Object_Get (client c) (path_Join [COS_Path (COS_Config c), key])")
    (auto simp: StatFile_def client_Object_Get_def split: prod.splits go_error.splits)

text \<open>
  C3, as the code has it: \<open>StatFile\<close> sends exactly one request, an \<open>Object.Get\<close>
  on the resolved path, the request that fetches the object; and its result is the same
  when the answer carries no body: existence, size and time come from the error, the
  content length and the \<open>Date\<close> header alone.
\<close>

theorem StatFile_one_get_no_body:
  "snd (StatFile time_Parse c key log) =
     log @ [ObjectGet (path_Join [COS_Path (COS_Config c), key])]
   \<and> fst (StatFile time_Parse (c \<lparr> client := without_body (client c) \<rparr>) key log) =
       fst (StatFile time_Parse c key log)"
  by (cases "Object_Get (client c) (path_Join [COS_Path (COS_Config c), key])")
    (auto simp: StatFile_def client_Object_Get_def without_body_def
      split: prod.splits go_error.splits)

lemma path_Join_a: "path_Join [[], ''a/''] = ''a''"
  by (simp add: path_Join_def path_Clean_def)

lemma path_Join_key: "path_Join [[], ''a/b/file1''] = ''a/b/file1''"
  by (simp add: path_Join_def path_Clean_def)

lemma path_Join_missing: "path_Join [[], ''missing''] = ''missing''"
  by (simp add: path_Join_def path_Clean_def)

lemma two_keys_cos_simps:
  "COS_Path (COS_Config two_keys_cos) = []"
  "client two_keys_cos = cos_service ''Thu, 04 Mar 2021 05:06:07 GMT'' two_keys"
  by (simp_all add: two_keys_cos_def DefaultConfig_simps)

text \<open>
  C3 as stated fails: the stat of the key \<open>a/b/file1\<close> sends the request that
  fetches the object.
\<close>

theorem StatFile_issues_get_counterexample:
  "ObjectGet ''a/b/file1'' \<in> set (snd (StatFile sample_time_Parse two_keys_cos ''a/b/file1'' []))"
  by (simp add: StatFile_requests two_keys_cos_simps path_Join_key)

lemma sample_time_Parse_date:
  "isl (sample_time_Parse ''Mon, 02 Jan 2006 15:04:05 GMT'' ''2021-03-04T05:06:07Z'')"
  "isl (sample_time_Parse time_RFC850 ''2021-03-04T05:06:07Z'')"
  "isl (sample_time_Parse time_ANSIC ''2021-03-04T05:06:07Z'')"
  "sample_time_Parse time_RFC3339 ''2021-03-04T05:06:07Z'' = Inr 63750431167"
  by (simp_all add: sample_time_Parse_def time_RFC850_def time_ANSIC_def time_RFC3339_def)

lemma sample_time_Parse_fails:
  "isl (sample_time_Parse layout ''soon'')"
  "isl (sample_time_Parse layout ''yesterday'')"
  by (simp_all add: sample_time_Parse_def)

lemma undated_cos_simps:
  "COS_Path (COS_Config undated_cos) = []"
  "client undated_cos = cos_service ''soon'' two_keys"
  by (simp_all add: undated_cos_def two_keys_cos_simps)

lemma undated_get:
  "Object_Get (cos_service ''soon'' two_keys) ''a/b/file1'' =
     Inr \<lparr> Header_Date = ''soon'', ContentLength = 3,
            Request_URL_Path = ''/a/b/file1'', Body = ''one'' \<rparr>"
  by (simp add: cos_service_def two_keys_def)

lemma two_keys_listing_recursive:
  "Bucket_Get (cos_service date two_keys) [] ''a'' =
     Inr \<lparr> CommonPrefixes = [],
            Contents =
              [\<lparr> Object_Key = ''a/b/file1'', Object_LastModified = ''2021-03-04T05:06:07Z'',
                  Object_Size = 3 \<rparr>,
               \<lparr> Object_Key = ''a/c/file2'', Object_LastModified = ''yesterday'',
                  Object_Size = 6 \<rparr>] \<rparr>"
  by (simp add: cos_service_def list_objects_def two_keys_def strings_HasPrefix_def)

lemma two_keys_listing_flat:
  "Bucket_Get (cos_service date two_keys) ''/'' ''a'' =
     Inr \<lparr> CommonPrefixes = [''a/''], Contents = [] \<rparr>"
  by (simp add: cos_service_def list_objects_def two_keys_def strings_HasPrefix_def)

lemma parseTime_sample_date:
  "parseTime sample_time_Parse ''2021-03-04T05:06:07Z'' = (63750431167, None)"
  by (simp add: parseTime_def timeFormats_def sample_time_Parse_def time_RFC850_def
      time_ANSIC_def time_RFC3339_def)

lemma parseTime_sample_fails:
  "parseTime sample_time_Parse ''yesterday'' =
     (zero_time, Some (ErrorString ''parsing time: cannot parse''))"
  "parseTime sample_time_Parse ''soon'' =
     (zero_time, Some (ErrorString ''parsing time: cannot parse''))"
  by (simp_all add: parseTime_def timeFormats_def sample_time_Parse_def)

text \<open>
  A timestamp that only the fourth layout parses, and one that no layout parses: the
  stat and the walk over a provider with such timestamps succeed, with the zero time.
\<close>

theorem parseTime_first_format_witness:
  "timeFormats = [''Mon, 02 Jan 2006 15:04:05 GMT'', time_RFC850, time_ANSIC] @ time_RFC3339 # []
   \<and> isl (sample_time_Parse ''Mon, 02 Jan 2006 15:04:05 GMT'' ''2021-03-04T05:06:07Z'')
   \<and> isl (sample_time_Parse time_RFC850 ''2021-03-04T05:06:07Z'')
   \<and> isl (sample_time_Parse time_ANSIC ''2021-03-04T05:06:07Z'')
   \<and> sample_time_Parse time_RFC3339 ''2021-03-04T05:06:07Z'' = Inr 63750431167
   \<and> parseTime sample_time_Parse ''2021-03-04T05:06:07Z'' = (63750431167, None)
   \<and> fst (parseTime sample_time_Parse ''soon'') = zero_time
   \<and> fst (StatFile sample_time_Parse undated_cos ''a/b/file1'' []) =
       Inr \<lparr> cosFile_size = 3, cosFile_lastModified = zero_time,
              cosFile_name = ''/a/b/file1'' \<rparr>
   \<and> fst (Walk sample_time_Parse undated_cos ''a/'' True record_visit [] []) = None
   \<and> visited sample_time_Parse undated_cos ''a/'' True =
       [\<lparr> cosFile_size = 3, cosFile_lastModified = 63750431167,
           cosFile_name = ''/b/file1'' \<rparr>,
        \<lparr> cosFile_size = 6, cosFile_lastModified = zero_time,
           cosFile_name = ''/c/file2'' \<rparr>]"
proof -
  have fmts: "timeFormats =
      [''Mon, 02 Jan 2006 15:04:05 GMT'', time_RFC850, time_ANSIC] @ time_RFC3339 # []"
    by (simp add: timeFormats_def)
  have pre: "\<forall>l \<in> set [''Mon, 02 Jan 2006 15:04:05 GMT'', time_RFC850, time_ANSIC].
      isl (sample_time_Parse l ''2021-03-04T05:06:07Z'')"
    by (simp add: sample_time_Parse_date)
  have r1: "parseTime sample_time_Parse ''2021-03-04T05:06:07Z'' = (63750431167, None)"
  proof -
    from parseTime_first_format [where time_Parse = sample_time_Parse
        and ts = "''2021-03-04T05:06:07Z''"]
    have "\<forall>pre layout post t.
        timeFormats = pre @ layout # post
        \<and> (\<forall>l \<in> set pre. isl (sample_time_Parse l ''2021-03-04T05:06:07Z''))
        \<and> sample_time_Parse layout ''2021-03-04T05:06:07Z'' = Inr t \<longrightarrow>
        parseTime sample_time_Parse ''2021-03-04T05:06:07Z'' = (t, None)"
      by (rule conjunct1)
    with fmts pre sample_time_Parse_date(4) show ?thesis
      by blast
  qed
  have r2: "fst (parseTime sample_time_Parse ''soon'') = zero_time"
  proof -
    from parseTime_first_format [where time_Parse = sample_time_Parse and ts = "''soon''"]
    have "(\<forall>l \<in> set timeFormats. isl (sample_time_Parse l ''soon'')) \<longrightarrow>
        fst (parseTime sample_time_Parse ''soon'') = zero_time"
      by (rule conjunct2 [THEN conjunct1])
    with sample_time_Parse_fails(1) show ?thesis
      by blast
  qed
  have get: "Object_Get (client undated_cos)
      (path_Join [COS_Path (COS_Config undated_cos), ''a/b/file1'']) =
      Inr \<lparr> Header_Date = ''soon'', ContentLength = 3,
             Request_URL_Path = ''/a/b/file1'', Body = ''one'' \<rparr>"
    by (simp add: undated_cos_simps path_Join_key undated_get)
  have r3: "fst (StatFile sample_time_Parse undated_cos ''a/b/file1'' []) =
       Inr \<lparr> cosFile_size = 3, cosFile_lastModified = zero_time,
              cosFile_name = ''/a/b/file1'' \<rparr>"
    using parseTime_first_format [where time_Parse = sample_time_Parse and c = undated_cos
        and key = "''a/b/file1''" and log = "[]",
        THEN conjunct2, THEN conjunct2, THEN conjunct1, rule_format, OF get]
    by (simp add: r2)
  have lst: "Bucket_Get (client undated_cos) (if True then [] else ''/'')
      (path_Join [COS_Path (COS_Config undated_cos), ''a/'']) =
      Inr \<lparr> CommonPrefixes = [],
            Contents =
              [\<lparr> Object_Key = ''a/b/file1'', Object_LastModified = ''2021-03-04T05:06:07Z'',
                  Object_Size = 3 \<rparr>,
               \<lparr> Object_Key = ''a/c/file2'', Object_LastModified = ''yesterday'',
                  Object_Size = 6 \<rparr>] \<rparr>"
    by (simp add: undated_cos_simps path_Join_a two_keys_listing_recursive)
  have r4: "fst (Walk sample_time_Parse undated_cos ''a/'' True record_visit [] []) = None
     \<and> visited sample_time_Parse undated_cos ''a/'' True =
       [\<lparr> cosFile_size = 3, cosFile_lastModified = 63750431167,
           cosFile_name = ''/b/file1'' \<rparr>,
        \<lparr> cosFile_size = 6, cosFile_lastModified = zero_time,
           cosFile_name = ''/c/file2'' \<rparr>]"
    using parseTime_first_format [where time_Parse = sample_time_Parse and c = undated_cos
        and cosPath = "''a/''" and recursuve = True and process = record_visit
        and s = "[]" and log = "[]",
        THEN conjunct2, THEN conjunct2, THEN conjunct2, rule_format, OF lst]
    by (simp add: undated_cos_simps path_Join_a parseTime_sample_date parseTime_sample_fails
        strings_TrimPrefix_def strings_HasPrefix_def)
  show ?thesis
    using fmts sample_time_Parse_date r1 r2 r3 r4 by blast
qed

lemma StatFile_not_found:
  "Object_Get (client c) (path_Join [COS_Path (COS_Config c), key])
     = Inl (CosErrorResponse ''NoSuchKey'') \<Longrightarrow>
   fst (StatFile tp c key log) = Inl ErrNotFound"
  by (simp add: StatFile_def client_Object_Get_def)

lemma GetFileReader_passes_error:
  "Object_Get (client c) (path_Join [COS_Path (COS_Config c), key]) = Inl err \<Longrightarrow>
   fst (GetFileReader c key log) = Inl err"
  by (simp add: GetFileReader_def client_Object_Get_def)

lemma DeleteFile_passes_answer:
  "fst (DeleteFile c key log) =
     Object_Delete (client c) (path_Join [COS_Path (COS_Config c), key])"
  by (simp add: DeleteFile_def client_Object_Delete_def)

text \<open>
  C2 at a key that is not in the namespace: \<open>StatFile\<close> returns the not-found
  sentinel, and \<open>GetFileReader\<close> returns the error of the provider as it is, which
  is not the sentinel.
\<close>

theorem missing_key_errors:
  "map_of two_keys ''missing'' = None
   \<and> fst (StatFile sample_time_Parse two_keys_cos ''missing'' []) = Inl ErrNotFound
   \<and> fst (GetFileReader two_keys_cos ''missing'' []) = Inl (CosErrorResponse ''NoSuchKey'')
   \<and> fst (GetFileReader two_keys_cos ''missing'' []) \<noteq> Inl ErrNotFound"
  by (simp add: StatFile_def GetFileReader_def client_Object_Get_def two_keys_cos_simps
      path_Join_missing cos_service_def two_keys_def)

text \<open>
  C1 at the namespace of the two keys \<open>a/b/file1\<close> and \<open>a/c/file2\<close>, walked from
  \<open>a/\<close>: \<open>path.Join\<close> drops the slash at the end of the prefix, so the listing
  is asked for the prefix \<open>a\<close>. Without recursion the visitor is called once, on the
  name \<open>/\<close>; with recursion it is called on the names \<open>/b/file1\<close> and
  \<open>/c/file2\<close>, which start with a slash.
\<close>

theorem Walk_two_keys_names:
  "Walk sample_time_Parse two_keys_cos ''a/'' False record_visit [] [] =
     (None,
      [\<lparr> cosFile_size = 0, cosFile_lastModified = zero_time, cosFile_name = ''/'' \<rparr>],
      [BucketGet ''/'' ''a''])
   \<and> Walk sample_time_Parse two_keys_cos ''a/'' True record_visit [] [] =
     (None,
      [\<lparr> cosFile_size = 3, cosFile_lastModified = 63750431167,
          cosFile_name = ''/b/file1'' \<rparr>,
       \<lparr> cosFile_size = 6, cosFile_lastModified = zero_time,
          cosFile_name = ''/c/file2'' \<rparr>],
      [BucketGet [] ''a''])"
  by (simp add: Walk_def client_Bucket_Get_def two_keys_cos_simps path_Join_a
      two_keys_listing_flat two_keys_listing_recursive walk_prefixes_record
      walk_contents_record parseTime_sample_date parseTime_sample_fails
      strings_TrimPrefix_def strings_HasPrefix_def Let_def record_visit_def)

end
